theory Spec2Isabelle
  imports Main
begin

section \<open>Test specifications\<close>

text \<open>
  The generator of \<^verbatim>\<open>lib/generator.go\<close> turns test specifications into Go test
  files, one for every API version. It reads a template file, a Go source file in
  which comments mark the skeletons of a test function, of a test and of a group of
  subtests, and it writes for every version a copy of the template in which the
  skeletons are replaced by the tests of the specification.

  A Go slice that may be \<^verbatim>\<open>nil\<close> is a list option: \<open>None\<close> is the nil slice,
  \<open>Some []\<close> an empty slice that is not nil. The code tells them apart
  (\<^verbatim>\<open>apiVersions == nil\<close>).
\<close>

type_synonym 'a slice = "'a list option"

definition elems :: "'a slice \<Rightarrow> 'a list" where
  "elems s = (case s of None \<Rightarrow> [] | Some xs \<Rightarrow> xs)"

text \<open>
  Modelled from the spec: the content type of a request, one of JSON, FORM and RAW.
  The Go type is a named basic type, so it has other values as well;
  \<open>OtherType\<close> stands for all of them (the \<^verbatim>\<open>switch\<close> statements of the generator
  have no case for them).
\<close>

datatype Type = JSON | FORM | RAW | OtherType

text \<open>
  Modelled from the spec: a structured literal value (\<^verbatim>\<open>interface{}\<close> in the Go
  code) of a parameter, header or variable mapping.
\<close>

datatype gvalue =
    GNil
  | GString string
  | GInt int
  | GBool bool
  | GList "gvalue list"
  | GMap "(string \<times> gvalue) list"

text \<open>
  Modelled from the spec: the types of a test specification (\<^verbatim>\<open>Req\<close>, \<^verbatim>\<open>Res\<close>,
  \<^verbatim>\<open>Test\<close>, \<^verbatim>\<open>Subtest\<close>, \<^verbatim>\<open>RouterFunc\<close>, \<^verbatim>\<open>TestFunc\<close>), which are declared in
  another file of the package. The records carry the fields that \<^verbatim>\<open>generator.go\<close>
  reads and writes, under the names it uses for them, each prefixed with the name of
  its struct.
\<close>

record Req =
  Req_Type :: Type
  Req_Body :: string
  Req_Params :: gvalue
  Req_Headers :: gvalue

record Res =
  Res_Status :: int
  Res_Headers :: gvalue
  Res_Params :: gvalue
  Res_ParamsArray :: gvalue

record Test =
  Test_APIVersions :: "string slice"
  Test_Path :: string
  Test_Method :: string
  Test_Register :: string
  Test_Req :: Req
  Test_Res :: Res
  Test_Vars :: gvalue

record Subtest =
  Subtest_Name :: string
  Subtest_APIVersions :: "string slice"
  Subtest_Tests :: "Test list"

text \<open>
  An element of \<^verbatim>\<open>TestFunc.Tests\<close> is a value of an interface type; the generator
  switches on its dynamic type, \<^verbatim>\<open>Test\<close> or \<^verbatim>\<open>Subtests\<close> (a slice of
  \<^verbatim>\<open>Subtest\<close>).
\<close>

datatype Tester = TestItem Test | SubtestsItem "Subtest list"

record RouterFunc =
  RouterFunc_PackagePath :: string
  RouterFunc_Name :: string

record TestFunc =
  TestFunc_Name :: string
  TestFunc_Vars :: gvalue
  TestFunc_RouterFuncName :: string
  TestFunc_RouterFunc :: RouterFunc
  TestFunc_APIVersions :: "string slice"
  TestFunc_Tests :: "Tester list"

section \<open>Strings\<close>

text \<open>
  Go strings are byte sequences, here lists of characters. The functions of the
  package \<^verbatim>\<open>strings\<close> that the generator calls are written out below.
\<close>

definition HasPrefix :: "string \<Rightarrow> string \<Rightarrow> bool" where
  "HasPrefix s prefix \<longleftrightarrow> take (length prefix) s = prefix"

definition HasSuffix :: "string \<Rightarrow> string \<Rightarrow> bool" where
  "HasSuffix s suffix \<longleftrightarrow> drop (length s - length suffix) s = suffix"

definition TrimPrefix :: "string \<Rightarrow> string \<Rightarrow> string" where
  "TrimPrefix s prefix = (if HasPrefix s prefix then drop (length prefix) s else s)"

definition TrimSuffix :: "string \<Rightarrow> string \<Rightarrow> string" where
  "TrimSuffix s suffix = (if HasSuffix s suffix then take (length s - length suffix) s else s)"

text \<open>\<^verbatim>\<open>strings.Contains(s, substr)\<close>: \<open>substr\<close> starts at some position of \<open>s\<close>.\<close>

fun Contains :: "string \<Rightarrow> string \<Rightarrow> bool" where
  "Contains [] substr \<longleftrightarrow> substr = []"
| "Contains (c # s) substr \<longleftrightarrow> take (length substr) (c # s) = substr \<or> Contains s substr"

text \<open>
  \<^verbatim>\<open>strings.Split(s, sep)\<close> for a separator of one character: the pieces of \<open>s\<close>
  between the separators; an empty string has one empty piece.
\<close>

fun Split :: "string \<Rightarrow> char \<Rightarrow> string list" where
  "Split [] sep = [[]]"
| "Split (c # s) sep =
     (if c = sep then [] # Split s sep
      else (case Split s sep of [] \<Rightarrow> [[c]] | x # xs \<Rightarrow> (c # x) # xs))"

text \<open>
  \<^verbatim>\<open>strings.Replace(s, old, new, 1)\<close> for a non-empty \<^verbatim>\<open>old\<close>: the first
  occurrence of \<^verbatim>\<open>old\<close> in \<^verbatim>\<open>s\<close>, if there is one, is replaced by \<^verbatim>\<open>new\<close>, and
  the rest of \<^verbatim>\<open>s\<close> is copied. The generator calls it with the constant
  \<^verbatim>\<open>{apiVersion}\<close> for \<^verbatim>\<open>old\<close>.
\<close>

fun Replace1 :: "string \<Rightarrow> string \<Rightarrow> string \<Rightarrow> string" where
  "Replace1 [] old new = []"
| "Replace1 (c # s) old new =
     (if take (length old) (c # s) = old then new @ drop (length old) (c # s)
      else c # Replace1 s old new)"

text \<open>The decimal numeral of a natural number, and of an integer (the verb \<^verbatim>\<open>%d\<close>).\<close>

definition digit :: "nat \<Rightarrow> char" where
  "digit n = ''0123456789'' ! n"

fun decimal :: "nat \<Rightarrow> string" where
  "decimal n = (if n < 10 then [digit n] else decimal (n div 10) @ [digit (n mod 10)])"

definition decimalInt :: "int \<Rightarrow> string" where
  "decimalInt i = (if i < 0 then CHR ''-'' # decimal (nat (- i)) else decimal (nat i))"

text \<open>
  \<^verbatim>\<open>strings.ToUpper\<close> on a string of ASCII characters: a small letter becomes the
  capital letter, every other character stays.
\<close>

definition upperChar :: "char \<Rightarrow> char" where
  "upperChar c =
     (let n = (of_char c :: nat) in if 97 \<le> n \<and> n \<le> 122 then char_of (n - 32) else c)"

definition upperASCII :: "string \<Rightarrow> string" where
  "upperASCII s = map upperChar s"

text \<open>
  The verb \<^verbatim>\<open>%#v\<close> at a string of printable ASCII characters: the string in double
  quotes, with a backslash before every double quote and every backslash.
\<close>

fun escape :: "string \<Rightarrow> string" where
  "escape [] = []"
| "escape (c # s) =
     (if c = CHR 0x22 \<or> c = CHR 0x5C then CHR 0x5C # c # escape s else c # escape s)"

definition quoteASCII :: "string \<Rightarrow> string" where
  "quoteASCII s = CHR 0x22 # escape s @ [CHR 0x22]"

section \<open>Planning: versions and filtering\<close>

subsection \<open>\<^verbatim>\<open>contains\<close>\<close>

fun contains :: "string list \<Rightarrow> string \<Rightarrow> bool" where
  "contains [] e \<longleftrightarrow> False"
| "contains (v # s) e \<longleftrightarrow> (if e = v then True else contains s e)"

subsection \<open>\<^verbatim>\<open>getVersions\<close>\<close>

text \<open>
  The first loop of \<^verbatim>\<open>getVersions\<close> appends to \<^verbatim>\<open>versions\<close> the versions of every
  element of \<^verbatim>\<open>testFunc.Tests\<close> whose dynamic type is \<^verbatim>\<open>Test\<close>; the type switch
  has no other case.
\<close>

fun appendTestVersions :: "string list \<Rightarrow> Tester list \<Rightarrow> string list" where
  "appendTestVersions versions [] = versions"
| "appendTestVersions versions (TestItem v # tests) =
     appendTestVersions (versions @ elems (Test_APIVersions v)) tests"
| "appendTestVersions versions (SubtestsItem v # tests) =
     appendTestVersions versions tests"

text \<open>
  The second loop keeps the first occurrence of every version: \<^verbatim>\<open>m\<close> is the map
  of the versions seen so far (a missing key reads as \<^verbatim>\<open>false\<close>), \<^verbatim>\<open>deduped\<close> the
  result so far.
\<close>

fun dedupe :: "(string \<Rightarrow> bool) \<Rightarrow> string list \<Rightarrow> string list \<Rightarrow> string list" where
  "dedupe m deduped [] = deduped"
| "dedupe m deduped (v # versions) =
     (if \<not> m v then dedupe (m(v := True)) (deduped @ [v]) versions
      else dedupe m deduped versions)"

definition getVersions :: "TestFunc \<Rightarrow> string list" where
  "getVersions testFunc =
     dedupe (\<lambda>_. False) []
       (appendTestVersions (elems (TestFunc_APIVersions testFunc)) (TestFunc_Tests testFunc))"

subsection \<open>\<^verbatim>\<open>filterTest\<close>, \<^verbatim>\<open>filterTests\<close>, \<^verbatim>\<open>filterTestFuncs\<close>\<close>

definition filterTest :: "Test \<Rightarrow> string slice \<Rightarrow> string \<Rightarrow> Test option" where
  "filterTest test versions version =
     (let apiVersions = Test_APIVersions test;
          test = test\<lparr>Test_Path := Replace1 (Test_Path test) ''{apiVersion}'' version\<rparr>
      in if contains (elems apiVersions) version then Some test
         else if apiVersions = None \<and> contains (elems versions) version then Some test
         else None)"

text \<open>The loop over the tests of one subtest.\<close>

fun filterSubtestTests :: "Test list \<Rightarrow> string slice \<Rightarrow> string \<Rightarrow> Test list" where
  "filterSubtestTests [] versions version = []"
| "filterSubtestTests (t # ts) versions version =
     (case filterTest t versions version of
        Some test \<Rightarrow> test # filterSubtestTests ts versions version
      | None \<Rightarrow> filterSubtestTests ts versions version)"

text \<open>The loop over the subtests of one \<^verbatim>\<open>Subtests\<close> element.\<close>

fun filterSubtests :: "Subtest list \<Rightarrow> string slice \<Rightarrow> string \<Rightarrow> Subtest list" where
  "filterSubtests [] versions version = []"
| "filterSubtests (s # ss) versions version =
     (if Subtest_APIVersions s \<noteq> None \<and> \<not> contains (elems (Subtest_APIVersions s)) version
        then filterSubtests ss versions version
      else if Subtest_APIVersions s = None \<and> \<not> contains (elems versions) version
        then filterSubtests ss versions version
      else \<lparr>Subtest_Name = Subtest_Name s, Subtest_APIVersions = None,
             Subtest_Tests = filterSubtestTests (Subtest_Tests s) versions version\<rparr>
           # filterSubtests ss versions version)"

text \<open>The loop over \<^verbatim>\<open>testFunc.Tests\<close>.\<close>

fun filterTesters :: "Tester list \<Rightarrow> string slice \<Rightarrow> string \<Rightarrow> Tester list" where
  "filterTesters [] versions version = []"
| "filterTesters (TestItem v # ts) versions version =
     (case filterTest v versions version of
        Some test \<Rightarrow> TestItem test # filterTesters ts versions version
      | None \<Rightarrow> filterTesters ts versions version)"
| "filterTesters (SubtestsItem v # ts) versions version =
     SubtestsItem (filterSubtests v versions version) # filterTesters ts versions version"

definition filterTests :: "TestFunc \<Rightarrow> string \<Rightarrow> TestFunc" where
  "filterTests testFunc version =
     \<lparr>TestFunc_Name = TestFunc_Name testFunc,
      TestFunc_Vars = TestFunc_Vars testFunc,
      TestFunc_RouterFuncName = TestFunc_RouterFuncName testFunc,
      TestFunc_RouterFunc = TestFunc_RouterFunc testFunc,
      TestFunc_APIVersions = None,
      TestFunc_Tests =
        filterTesters (TestFunc_Tests testFunc) (TestFunc_APIVersions testFunc) version\<rparr>"

text \<open>
  The result of \<^verbatim>\<open>filterTestFuncs\<close> is a Go map from versions to slices of test
  functions. It is modelled as an association list whose keys are distinct, in the
  order in which the keys were first written; \<open>lookupFuncs\<close> reads a key (a missing
  key reads as the nil slice, as in Go) and \<open>appendFunc\<close> is the statement
  \<^verbatim>\<open>tfuncs[version] = append(tfuncs[version], tfunc)\<close>.
\<close>

type_synonym plan = "(string \<times> TestFunc list) list"

fun lookupFuncs :: "plan \<Rightarrow> string \<Rightarrow> TestFunc list" where
  "lookupFuncs [] version = []"
| "lookupFuncs ((k, fs) # tfuncs) version =
     (if k = version then fs else lookupFuncs tfuncs version)"

fun appendFunc :: "plan \<Rightarrow> string \<Rightarrow> TestFunc \<Rightarrow> plan" where
  "appendFunc [] version tfunc = [(version, [tfunc])]"
| "appendFunc ((k, fs) # tfuncs) version tfunc =
     (if k = version then (k, fs @ [tfunc]) # tfuncs
      else (k, fs) # appendFunc tfuncs version tfunc)"

text \<open>The inner loop, over the versions of one test function.\<close>

fun filterVersions :: "plan \<Rightarrow> TestFunc \<Rightarrow> string list \<Rightarrow> plan" where
  "filterVersions tfuncs testFunc [] = tfuncs"
| "filterVersions tfuncs testFunc (version # versions) =
     filterVersions (appendFunc tfuncs version (filterTests testFunc version)) testFunc versions"

text \<open>The outer loop, over the test functions.\<close>

fun filterLoop :: "plan \<Rightarrow> TestFunc list \<Rightarrow> plan" where
  "filterLoop tfuncs [] = tfuncs"
| "filterLoop tfuncs (testFunc # testFuncs) =
     filterLoop (filterVersions tfuncs testFunc (getVersions testFunc)) testFuncs"

definition filterTestFuncs :: "TestFunc list \<Rightarrow> plan" where
  "filterTestFuncs testFuncs = filterLoop [] testFuncs"

section \<open>Register paths\<close>

subsection \<open>The regular expression of \<^verbatim>\<open>replaceRegister\<close>\<close>

text \<open>
  \<^verbatim>\<open>replaceRegister\<close> rewrites a segment that contains a bracket with
  \<^verbatim>\<open>ReplaceAllString\<close> of the regular expression \<^verbatim>\<open>(.+)\[(\d)\]\<close>: one or more
  characters other than a newline, as many as possible, then an opening bracket, one
  decimal digit and a closing bracket.

  \<open>indexAt s\<close> is the match of \<^verbatim>\<open>\[(\d)\]\<close> at the start of \<open>s\<close>, the digit.
\<close>

definition isDigit :: "char \<Rightarrow> bool" where
  "isDigit c \<longleftrightarrow> c \<in> set ''0123456789''"

fun indexAt :: "string \<Rightarrow> char option" where
  "indexAt (a # d # b # s) =
     (if a = CHR ''['' \<and> isDigit d \<and> b = CHR '']'' then Some d else None)"
| "indexAt s = None"

text \<open>
  The match of the whole expression at the start of \<open>s\<close>. The first group is greedy:
  it takes the first \<open>q\<close> characters for the greatest \<open>q\<close>, at least one and at most
  the length of the line, after which the rest of the expression matches; \<open>backtrack\<close>
  tries \<open>q\<close> downwards. The result is the first group, the second group and the input
  after the match.
\<close>

fun backtrack :: "string \<Rightarrow> nat \<Rightarrow> (string \<times> char \<times> string) option" where
  "backtrack s 0 = None"
| "backtrack s (Suc q) =
     (case indexAt (drop (Suc q) s) of
        Some d \<Rightarrow> Some (take (Suc q) s, d, drop (Suc q + 3) s)
      | None \<Rightarrow> backtrack s q)"

definition matchHere :: "string \<Rightarrow> (string \<times> char \<times> string) option" where
  "matchHere s = backtrack s (length (takeWhile (\<lambda>c. c \<noteq> CHR 0x0A) s))"

lemma backtrack_shorter: "backtrack s q = Some (g1, g2, rest) \<Longrightarrow> length rest < length s"
proof (induction s q rule: backtrack.induct)
  case (1 s)
  then show ?case by simp
next
  case (2 s q)
  show ?case
  proof (cases "indexAt (drop (Suc q) s)")
    case None
    with 2 show ?thesis by simp
  next
    case (Some d)
    then have "3 \<le> length (drop (Suc q) s)"
      by (cases "drop (Suc q) s" rule: indexAt.cases) auto
    moreover from 2(2) Some have "rest = drop (Suc q + 3) s" by simp
    ultimately show ?thesis by simp
  qed
qed

text \<open>The replacement template \<^verbatim>\<open>["$1"].([]interface{})[$2]\<close>, expanded.\<close>

definition Expand :: "string \<Rightarrow> char \<Rightarrow> string" where
  \<open>Expand g1 g2 = ''["'' @ g1 @ ''"].([]interface{})['' @ [g2] @ '']''\<close>

text \<open>
  \<^verbatim>\<open>ReplaceAllString\<close>: the leftmost match is replaced, and the search goes on after
  it; a character at which no match starts is copied.
\<close>

function ReplaceAllString :: "string \<Rightarrow> string" where
  "ReplaceAllString [] = []"
| "ReplaceAllString (c # s) =
     (case matchHere (c # s) of
        Some (g1, g2, rest) \<Rightarrow> Expand g1 g2 @ ReplaceAllString rest
      | None \<Rightarrow> c # ReplaceAllString s)"
  by pat_completeness auto
termination
  by (relation "measure length") (auto simp: matchHere_def dest: backtrack_shorter)

subsection \<open>\<^verbatim>\<open>replaceRegister\<close>\<close>

text \<open>The loop over the segments \<^verbatim>\<open>t\<close>; \<open>i\<close> is the index of the next segment.\<close>

fun registerLoop :: "string \<Rightarrow> nat \<Rightarrow> string list \<Rightarrow> string" where
  "registerLoop val i [] = val"
| \<open>registerLoop val i (ti # t) =
     (let val = (if i > 0 then val @ ''.(map[string]interface{})'' else val);
          val = (if Contains ti ''['' then val @ ReplaceAllString ti
                 else val @ ''["'' @ ti @ ''"]'')
      in registerLoop val (Suc i) t)\<close>

definition replaceRegister :: "string \<Rightarrow> string" where
  \<open>replaceRegister str =
     (let s = TrimPrefix str ''"$atgenRegister['';
          s = TrimSuffix s '']"'';
          t = Split s CHR ''.''
      in registerLoop ''atgenRegister'' 0 t @ ''.(string)'')\<close>

section \<open>Syntax trees\<close>

text \<open>
  The generator works on the syntax trees of \<^verbatim>\<open>go/ast\<close>. A tree is modelled by
  its shape: a node has a kind and its fields in the order in which
  \<^verbatim>\<open>astutil.Apply\<close> walks them, each field holding one child (\<open>One\<close>) or a slice of
  children (\<open>Many\<close>). The kinds that the generator inspects are named; their
  fields are
  \<^item> \<open>CallExpr\<close>: \<^verbatim>\<open>Fun\<close>, \<^verbatim>\<open>Args\<close> (a slice);
  \<^item> \<open>AssignStmt\<close>: \<^verbatim>\<open>Lhs\<close>, \<^verbatim>\<open>Rhs\<close> (two slices);
  \<^item> \<open>CompositeLit\<close>: \<^verbatim>\<open>Type\<close>, \<^verbatim>\<open>Elts\<close> (a slice);
  \<^item> \<open>BlockStmt\<close>: \<^verbatim>\<open>List\<close> (a slice);
  \<^item> \<open>FuncDecl\<close>: \<^verbatim>\<open>Doc\<close>, \<^verbatim>\<open>Recv\<close>, \<^verbatim>\<open>Name\<close>, \<^verbatim>\<open>Type\<close>, \<^verbatim>\<open>Body\<close>;
  \<^item> \<open>SelectorExpr\<close>: \<^verbatim>\<open>X\<close>, \<^verbatim>\<open>Sel\<close>.

  Identifiers and basic literals are leaves that carry their \<^verbatim>\<open>Name\<close> and
  \<^verbatim>\<open>Value\<close>; \<open>NilNode\<close> is a nil child. Trees are values: a copy made by
  \<^verbatim>\<open>DuplicateNode\<close> is the tree itself, and a change of one copy is never seen in
  another.
\<close>

datatype kind = CallExpr | AssignStmt | CompositeLit | BlockStmt | FuncDecl | SelectorExpr
  | OtherKind string

datatype node =
    NilNode
  | BasicLit string
  | Ident string
  | Node kind "field list"
and field = One node | Many "node list"

subsection \<open>\<^verbatim>\<open>astutil.Apply\<close>\<close>

text \<open>
  \<^verbatim>\<open>Apply\<close> walks a tree in depth-first order and calls the function \<^verbatim>\<open>pre\<close> at
  every node before it walks the children of the node. What \<^verbatim>\<open>pre\<close> does at a
  node is an \<open>edit\<close>: nothing (\<open>Keep\<close>), a new \<^verbatim>\<open>Value\<close> written into a basic
  literal (\<open>SetValue\<close>), \<^verbatim>\<open>Cursor.Replace\<close>, \<^verbatim>\<open>Cursor.Delete\<close>, or a panic of the
  function itself (\<open>Panics\<close>). A function \<^verbatim>\<open>pre\<close> of the generator is modelled as
  a function from the variables it captures (\<open>'st\<close>) and the node to the new values
  of the variables and the edit; all of them return \<^verbatim>\<open>true\<close>, and none passes a
  function \<^verbatim>\<open>post\<close>.

  \<^verbatim>\<open>Delete\<close> panics at a node that is not an element of a slice, and \<^verbatim>\<open>Replace\<close>
  panics on a nil replacement (\<open>enter\<close>). After \<^verbatim>\<open>pre\<close> has returned, \<^verbatim>\<open>Apply\<close> walks
  the children of the node it was called at, also when that node has been
  replaced or deleted; the replacement is not walked.
\<close>

datatype edit = Keep | SetValue string | Replace node | Delete | Panics string

type_synonym 'st pre = "'st \<Rightarrow> node \<Rightarrow> 'st \<times> edit"

definition enter :: "'st pre \<Rightarrow> bool \<Rightarrow> 'st \<Rightarrow> node \<Rightarrow> string + ('st \<times> edit)" where
  "enter pre inSlice st n =
     (case pre st n of
        (st1, Panics msg) \<Rightarrow> Inl msg
      | (st1, Delete) \<Rightarrow>
          if inSlice then Inr (st1, Delete) else Inl ''Delete node not contained in slice''
      | (st1, Replace r) \<Rightarrow>
          if r = NilNode then Inl ''reflect: call of reflect.Value.Set on zero Value''
          else Inr (st1, Replace r)
      | (st1, e) \<Rightarrow> Inr (st1, e))"

text \<open>
  What stands at the place of a node after the walk: the node itself with its
  children walked (\<open>Stays\<close>), a replacement, or nothing. \<open>Replaced\<close> and \<open>Deleted\<close>
  keep the node that was walked as well: the caller of \<^verbatim>\<open>Apply\<close> still holds it.
\<close>

datatype placed = Stays node | Replaced node node | Deleted node

fun self :: "placed \<Rightarrow> node" where
  "self (Stays n) = n"
| "self (Replaced r n) = n"
| "self (Deleted n) = n"

fun leave :: "edit \<Rightarrow> node \<Rightarrow> placed" where
  "leave (Replace r) n = Replaced r n"
| "leave Delete n = Deleted n"
| "leave (SetValue v) (BasicLit w) = Stays (BasicLit v)"
| "leave e n = Stays n"

text \<open>
  \<open>applyNode\<close> is the method \<^verbatim>\<open>apply\<close> (\<open>inSlice\<close>: the node is an element of a
  slice), \<open>applyList\<close> the method \<^verbatim>\<open>applyList\<close>, and \<open>applyFields\<close> the sequence of
  calls that \<^verbatim>\<open>apply\<close> makes for the fields of a node. The result is \<open>Inl\<close> with the
  message of the panic when the walk panics.
\<close>

fun applyNode :: "'st pre \<Rightarrow> bool \<Rightarrow> 'st \<Rightarrow> node \<Rightarrow> string + ('st \<times> placed)"
  and applyFields :: "'st pre \<Rightarrow> 'st \<Rightarrow> field list \<Rightarrow> string + ('st \<times> field list)"
  and applyList :: "'st pre \<Rightarrow> 'st \<Rightarrow> node list \<Rightarrow> string + ('st \<times> node list)"
where
  "applyNode pre inSlice st (Node k fs) =
     (case enter pre inSlice st (Node k fs) of
        Inl p \<Rightarrow> Inl p
      | Inr (st1, e) \<Rightarrow>
          (case applyFields pre st1 fs of
             Inl p \<Rightarrow> Inl p
           | Inr (st2, fs') \<Rightarrow> Inr (st2, leave e (Node k fs'))))"
| "applyNode pre inSlice st NilNode =
     (case enter pre inSlice st NilNode of
        Inl p \<Rightarrow> Inl p
      | Inr (st1, e) \<Rightarrow> Inr (st1, leave e NilNode))"
| "applyNode pre inSlice st (BasicLit v) =
     (case enter pre inSlice st (BasicLit v) of
        Inl p \<Rightarrow> Inl p
      | Inr (st1, e) \<Rightarrow> Inr (st1, leave e (BasicLit v)))"
| "applyNode pre inSlice st (Ident x) =
     (case enter pre inSlice st (Ident x) of
        Inl p \<Rightarrow> Inl p
      | Inr (st1, e) \<Rightarrow> Inr (st1, leave e (Ident x)))"
| "applyFields pre st [] = Inr (st, [])"
| "applyFields pre st (One n # fs) =
     (case applyNode pre False st n of
        Inl p \<Rightarrow> Inl p
      | Inr (st1, Deleted n') \<Rightarrow> Inl ''Delete node not contained in slice''
      | Inr (st1, Stays n') \<Rightarrow>
          (case applyFields pre st1 fs of
             Inl p \<Rightarrow> Inl p
           | Inr (st2, fs') \<Rightarrow> Inr (st2, One n' # fs'))
      | Inr (st1, Replaced r n') \<Rightarrow>
          (case applyFields pre st1 fs of
             Inl p \<Rightarrow> Inl p
           | Inr (st2, fs') \<Rightarrow> Inr (st2, One r # fs')))"
| "applyFields pre st (Many ns # fs) =
     (case applyList pre st ns of
        Inl p \<Rightarrow> Inl p
      | Inr (st1, ns') \<Rightarrow>
          (case applyFields pre st1 fs of
             Inl p \<Rightarrow> Inl p
           | Inr (st2, fs') \<Rightarrow> Inr (st2, Many ns' # fs')))"
| "applyList pre st [] = Inr (st, [])"
| "applyList pre st (n # ns) =
     (case applyNode pre True st n of
        Inl p \<Rightarrow> Inl p
      | Inr (st1, pl) \<Rightarrow>
          (case applyList pre st1 ns of
             Inl p \<Rightarrow> Inl p
           | Inr (st2, ns') \<Rightarrow>
               Inr (st2, (case pl of Stays n' \<Rightarrow> n' # ns' | Replaced r n' \<Rightarrow> r # ns'
                                  | Deleted n' \<Rightarrow> ns'))))"

section \<open>Rewriting the skeletons\<close>

text \<open>
  The functions of the Go library that the rewriter calls and that are not written
  out here are parameters of the model:
  \<^item> \<open>ParseExpr\<close>: \<^verbatim>\<open>parser.ParseExpr\<close>, the tree of a source text (\<open>NilNode\<close> when the
    parser returns no tree);
  \<^item> \<open>Quote\<close>: the verb \<^verbatim>\<open>%#v\<close> at a string, a quoted Go string literal;
  \<^item> \<open>GoSyntax\<close>: the verb \<^verbatim>\<open>%#v\<close> at a structured value;
  \<^item> \<open>ToUpper\<close>: \<^verbatim>\<open>strings.ToUpper\<close>;
  \<^item> \<open>Itoa\<close>: the verb \<^verbatim>\<open>%d\<close>.
\<close>

record golib =
  ParseExpr :: "string \<Rightarrow> node"
  Quote :: "string \<Rightarrow> string"
  GoSyntax :: "gvalue \<Rightarrow> string"
  ToUpper :: "string \<Rightarrow> string"
  Itoa :: "int \<Rightarrow> string"

subsection \<open>\<^verbatim>\<open>generateRequestBody\<close>\<close>

text \<open>
  The source texts of the three body expressions. \<open>line n s\<close> is a line break, \<open>n\<close>
  tabs and the text \<open>s\<close>, as the lines of the raw string literals of the source are.
\<close>

definition line :: "nat \<Rightarrow> string \<Rightarrow> string" where
  "line n s = CHR 0x0A # replicate n (CHR 0x09) @ s"

definition jsonBody :: string where
  "jsonBody = ''json.Marshal(atgenReqParams)''"

definition formBody :: string where
  \<open>formBody =
     ''func () ([]byte, error){''
     @ line 3 ''body := url.Values{}''
     @ line 3 ''for k, v := range atgenReqParams {''
     @ line 4 ''body.Add(k, fmt.Sprintf("%v", v))''
     @ line 3 ''}''
     @ line 3 ''return []byte(body.Encode()),nil''
     @ line 3 ''}()''\<close>

definition rawBody :: "string \<Rightarrow> string" where
  \<open>rawBody body =
     ''func() (body []byte, err error) {''
     @ line 3 ''tmpl, err := template.New("body").Parse("{{.body}}")''
     @ line 3 ''if err != nil {''
     @ line 4 ''return''
     @ line 3 ''}''
     @ line 3 ''if tmpl != nil {''
     @ line 4 ''buf := bytes.NewBuffer([]byte{})''
     @ line 4 (''err = tmpl.Execute(buf, map[string]string{"body": '' @ body @ ''})'')
     @ line 4 ''if err != nil {''
     @ line 5 ''return''
     @ line 4 ''}''
     @ line 4 ''body = buf.Bytes()''
     @ line 3 ''}''
     @ line 3 ''return''
     @ line 2 ''}()''\<close>

definition generateRequestBody :: "golib \<Rightarrow> Req \<Rightarrow> node" where
  "generateRequestBody lib req =
     (case Req_Type req of
        JSON \<Rightarrow> ParseExpr lib jsonBody
      | FORM \<Rightarrow> ParseExpr lib formBody
      | RAW \<Rightarrow> ParseExpr lib (rawBody (Quote lib (Req_Body req)))
      | OtherType \<Rightarrow> NilNode)"

subsection \<open>\<^verbatim>\<open>rewriteTestNode\<close>\<close>

text \<open>The literal of a structured value: the parsed text of its Go syntax.\<close>

definition literal :: "golib \<Rightarrow> gvalue \<Rightarrow> node" where
  "literal lib v = ParseExpr lib (GoSyntax lib v)"

text \<open>
  The function \<^verbatim>\<open>pre\<close> of the first walk. It captures the variable \<^verbatim>\<open>ident\<close>, the
  name of the identifier visited last. At an assignment it reads \<^verbatim>\<open>v.Lhs[0]\<close>,
  which panics when there is no left-hand side.
\<close>

fun testPre :: "golib \<Rightarrow> Test \<Rightarrow> string \<Rightarrow> node \<Rightarrow> string \<times> edit" where
  \<open>testPre lib test ident (BasicLit v) =
     (ident,
      if v = ''"AtgenMethod"'' then SetValue (''"'' @ ToUpper lib (Test_Method test) @ ''"'')
      else if v = ''"AtgenPath"'' then SetValue (''"'' @ Test_Path test @ ''"'')
      else if v = ''"atgenStatus"'' then SetValue (Itoa lib (Res_Status (Test_Res test)))
      else if v = ''"atgenRegisterKey"'' then SetValue (''"'' @ Test_Register test @ ''"'')
      else Keep)\<close>
| "testPre lib test ident (Ident name) = (name, Keep)"
| "testPre lib test ident (Node CallExpr fs) =
     (ident,
      case fs of
        One (Ident name) # args \<Rightarrow>
          if name = ''AtgenRequestBody''
          then (let expr = generateRequestBody lib (Test_Req test)
                in if expr \<noteq> NilNode then Replace expr else Keep)
          else Keep
      | _ \<Rightarrow> Keep)"
| "testPre lib test ident (Node AssignStmt fs) =
     (ident,
      case fs of
        Many [] # rhs \<Rightarrow> Panics ''index out of range [0] with length 0''
      | Many (Ident name # lhs) # rhs \<Rightarrow>
          if Req_Type (Test_Req test) = RAW \<and> name = ''atgenReqParams'' then Delete else Keep
      | _ \<Rightarrow> Keep)"
| "testPre lib test ident (Node CompositeLit fs) =
     ([],
      if ident = ''atgenReqHeaders'' then Replace (literal lib (Req_Headers (Test_Req test)))
      else if ident = ''atgenReqParams'' then
        (if Req_Type (Test_Req test) \<noteq> RAW
         then Replace (literal lib (Req_Params (Test_Req test)))
         else Keep)
      else if ident = ''atgenResHeaders'' then Replace (literal lib (Res_Headers (Test_Res test)))
      else if ident = ''atgenResParams'' then Replace (literal lib (Res_Params (Test_Res test)))
      else if ident = ''atgenResParamsArray'' then
        Replace (literal lib (Res_ParamsArray (Test_Res test)))
      else if ident = ''atgenTestVars'' then Replace (literal lib (Test_Vars test))
      else Keep)"
| "testPre lib test ident n = (ident, Keep)"

text \<open>
  The second walk rewrites the value of every basic literal. \<open>interpolate\<close> is what
  it does to a value; reading \<^verbatim>\<open>t[1]\<close> panics when the value has no colon.
\<close>

definition interpolate :: "string \<Rightarrow> string + string" where
  \<open>interpolate v =
     (if HasPrefix v ''"${'' then
        (let s = TrimPrefix v ''"${'';
             s = TrimSuffix s ''}"'';
             t = Split s CHR '':''
         in case t of
              t0 # t1 # ts \<Rightarrow> Inr (''atgenVars["'' @ t0 @ ''"].('' @ t1 @ '')'')
            | _ \<Rightarrow> Inl ''index out of range [1] with length 1'')
      else if HasPrefix v ''"$atgenRegister['' then Inr (replaceRegister v)
      else Inr v)\<close>

fun interpolatePre :: "unit \<Rightarrow> node \<Rightarrow> unit \<times> edit" where
  "interpolatePre u (BasicLit v) =
     (u, case interpolate v of Inl p \<Rightarrow> Panics p | Inr v' \<Rightarrow> SetValue v')"
| "interpolatePre u n = (u, Keep)"

text \<open>
  Both walks start at the node \<^verbatim>\<open>n\<close>, which is not an element of a slice, and the
  function returns \<^verbatim>\<open>n\<close> itself, not the result of \<^verbatim>\<open>Apply\<close>. Its error result is
  always nil; \<open>Inl\<close> is a panic.
\<close>

definition rewriteTestNode :: "golib \<Rightarrow> node \<Rightarrow> Test \<Rightarrow> string + node" where
  "rewriteTestNode lib n test =
     (case applyNode (testPre lib test) False [] n of
        Inl p \<Rightarrow> Inl p
      | Inr (ident, pl) \<Rightarrow>
          (case applyNode interpolatePre False () (self pl) of
             Inl p \<Rightarrow> Inl p
           | Inr (u, pl') \<Rightarrow> Inr (self pl')))"

subsection \<open>\<^verbatim>\<open>rewriteTestFuncNode\<close>\<close>

definition RouterFuncName :: string where
  "RouterFuncName = ''AtgenRouterFunc''"

text \<open>A loaded package (\<^verbatim>\<open>packages.Package\<close>): its path and its name.\<close>

record Package =
  Package_PkgPath :: string
  Package_Name :: string

text \<open>
  The loop over \<^verbatim>\<open>pkgs\<close>: the last package of the given path, \<open>None\<close> (the nil
  pointer) when there is none.
\<close>

fun findPackage :: "Package option \<Rightarrow> Package list \<Rightarrow> string \<Rightarrow> Package option" where
  "findPackage pkg [] path = pkg"
| "findPackage pkg (p # pkgs) path =
     findPackage (if Package_PkgPath p = path then Some p else pkg) pkgs path"

text \<open>
  The expression assigned to \<^verbatim>\<open>v.Fun\<close>. Reading \<^verbatim>\<open>pkg.Name\<close> through the nil
  pointer panics.
\<close>

definition routerFun :: "TestFunc \<Rightarrow> string \<Rightarrow> Package list \<Rightarrow> string + node" where
  "routerFun tfunc outputPath pkgs =
     (if RouterFunc_PackagePath (TestFunc_RouterFunc tfunc) = outputPath
      then Inr (Ident (RouterFunc_Name (TestFunc_RouterFunc tfunc)))
      else (case findPackage None pkgs (RouterFunc_PackagePath (TestFunc_RouterFunc tfunc)) of
              None \<Rightarrow> Inl ''invalid memory address or nil pointer dereference''
            | Some pkg \<Rightarrow>
                Inr (Node SelectorExpr
                  [One (Ident (Package_Name pkg)),
                   One (Ident (RouterFunc_Name (TestFunc_RouterFunc tfunc)))])))"

text \<open>
  The walk of \<^verbatim>\<open>rewriteTestFuncNode\<close>. Its function \<^verbatim>\<open>pre\<close> assigns to the field
  \<^verbatim>\<open>Fun\<close> of a call of \<^verbatim>\<open>AtgenRouterFunc\<close> and uses no cursor operation, so every
  node stays at its place. \<^verbatim>\<open>Apply\<close> then walks the new \<^verbatim>\<open>Fun\<close>, an identifier or
  a selector of two identifiers, where \<^verbatim>\<open>pre\<close> does nothing, and the arguments.
\<close>

fun routerNode :: "TestFunc \<Rightarrow> string \<Rightarrow> Package list \<Rightarrow> node \<Rightarrow> string + node"
  and routerFields ::
    "TestFunc \<Rightarrow> string \<Rightarrow> Package list \<Rightarrow> field list \<Rightarrow> string + field list"
  and routerList ::
    "TestFunc \<Rightarrow> string \<Rightarrow> Package list \<Rightarrow> node list \<Rightarrow> string + node list"
where
  "routerNode tfunc outputPath pkgs (Node k fs) =
     (case (k, fs) of
        (CallExpr, One (Ident name) # args) \<Rightarrow>
          if name = RouterFuncName then
            (case routerFun tfunc outputPath pkgs of
               Inl p \<Rightarrow> Inl p
             | Inr f \<Rightarrow>
                 (case routerFields tfunc outputPath pkgs args of
                    Inl p \<Rightarrow> Inl p
                  | Inr args' \<Rightarrow> Inr (Node CallExpr (One f # args'))))
          else (case routerFields tfunc outputPath pkgs fs of
                  Inl p \<Rightarrow> Inl p
                | Inr fs' \<Rightarrow> Inr (Node k fs'))
      | _ \<Rightarrow> (case routerFields tfunc outputPath pkgs fs of
                  Inl p \<Rightarrow> Inl p
                | Inr fs' \<Rightarrow> Inr (Node k fs')))"
| "routerNode tfunc outputPath pkgs n = Inr n"
| "routerFields tfunc outputPath pkgs [] = Inr []"
| "routerFields tfunc outputPath pkgs (One n # fs) =
     (case routerNode tfunc outputPath pkgs n of
        Inl p \<Rightarrow> Inl p
      | Inr n' \<Rightarrow>
          (case routerFields tfunc outputPath pkgs fs of
             Inl p \<Rightarrow> Inl p
           | Inr fs' \<Rightarrow> Inr (One n' # fs')))"
| "routerFields tfunc outputPath pkgs (Many ns # fs) =
     (case routerList tfunc outputPath pkgs ns of
        Inl p \<Rightarrow> Inl p
      | Inr ns' \<Rightarrow>
          (case routerFields tfunc outputPath pkgs fs of
             Inl p \<Rightarrow> Inl p
           | Inr fs' \<Rightarrow> Inr (Many ns' # fs')))"
| "routerList tfunc outputPath pkgs [] = Inr []"
| "routerList tfunc outputPath pkgs (n # ns) =
     (case routerNode tfunc outputPath pkgs n of
        Inl p \<Rightarrow> Inl p
      | Inr n' \<Rightarrow>
          (case routerList tfunc outputPath pkgs ns of
             Inl p \<Rightarrow> Inl p
           | Inr ns' \<Rightarrow> Inr (n' # ns')))"

text \<open>
  The function has no result in the source: it changes the node in place, and it
  returns or panics. The model returns the changed node, or \<open>Inl\<close> with the message
  of the panic. The first statement asserts that the node is a function declaration
  and assigns \<^verbatim>\<open>tfunc.Name\<close> to its name; it panics when the node is nil, is not a
  function declaration or has no name.
\<close>

definition rewriteTestFuncNode ::
  "node \<Rightarrow> TestFunc \<Rightarrow> string \<Rightarrow> Package list \<Rightarrow> string + node" where
  "rewriteTestFuncNode n tfunc outputPath pkgs =
     (case n of
        Node FuncDecl [One doc, One recv, One (Ident name), One typ, One body] \<Rightarrow>
          routerNode tfunc outputPath pkgs
            (Node FuncDecl
               [One doc, One recv, One (Ident (TestFunc_Name tfunc)), One typ, One body])
      | Node FuncDecl fs \<Rightarrow> Inl ''invalid memory address or nil pointer dereference''
      | NilNode \<Rightarrow> Inl ''interface conversion: ast.Node is nil, not *ast.FuncDecl''
      | _ \<Rightarrow> Inl ''interface conversion: ast.Node is not *ast.FuncDecl'')"

subsection \<open>\<^verbatim>\<open>addAdditionalImports\<close>\<close>

text \<open>
  An import of the output file (\<^verbatim>\<open>ast.ImportSpec\<close>): its local name, \<open>None\<close> when
  the import has none, and the imported path. \<open>importName\<close> is the name as
  \<^verbatim>\<open>astutil\<close> reads it, empty for an import without a name.
\<close>

type_synonym ImportSpec = "string option \<times> string"

definition importName :: "ImportSpec \<Rightarrow> string" where
  "importName s = (case fst s of None \<Rightarrow> [] | Some name \<Rightarrow> name)"

text \<open>
  \<^verbatim>\<open>astutil.AddImport(fset, f, path)\<close> is \<^verbatim>\<open>AddNamedImport\<close> with the empty name: it
  adds an import without a name, unless the file has an import of the path whose name
  is empty already (\<open>imported\<close>, the function \<^verbatim>\<open>imports\<close> of the library); an import of
  the path under a name does not count. The place where
  it puts the new import is not modelled: the list is \<^verbatim>\<open>f.Imports\<close>, to which the new
  import is appended.
\<close>

fun imported :: "ImportSpec list \<Rightarrow> string \<Rightarrow> string \<Rightarrow> bool" where
  "imported [] name path \<longleftrightarrow> False"
| "imported (s # specs) name path \<longleftrightarrow>
     (if importName s = name \<and> snd s = path then True else imported specs name path)"

definition AddImport :: "ImportSpec list \<Rightarrow> string \<Rightarrow> ImportSpec list" where
  "AddImport specs path = (if imported specs [] path then specs else specs @ [(None, path)])"

text \<open>
  A \<^verbatim>\<open>case\<close> of a Go \<^verbatim>\<open>switch\<close> does not fall through: the cases \<^verbatim>\<open>JSON\<close> and
  \<^verbatim>\<open>RAW\<close> have no statement.
\<close>

definition addAdditionalImports :: "Type \<Rightarrow> ImportSpec list \<Rightarrow> ImportSpec list" where
  "addAdditionalImports typ specs =
     (case typ of
        JSON \<Rightarrow> specs
      | RAW \<Rightarrow> specs
      | FORM \<Rightarrow>
          AddImport (AddImport (AddImport (AddImport specs ''fmt'') ''net/url'') ''bytes'')
            ''text/template''
      | OtherType \<Rightarrow> specs)"

section \<open>Generating the files\<close>

subsection \<open>File names\<close>

text \<open>
  \<^verbatim>\<open>filepath.Ext\<close> and \<^verbatim>\<open>filepath.Base\<close> on a system whose path separator is the
  slash. \<open>extScan\<close> reads the path backwards, up to the last separator.
\<close>

fun extScan :: "string \<Rightarrow> string \<Rightarrow> string" where
  "extScan [] ext = []"
| "extScan (c # path) ext =
     (if c = CHR ''/'' then []
      else if c = CHR ''.'' then c # ext
      else extScan path (c # ext))"

definition Ext :: "string \<Rightarrow> string" where
  "Ext path = extScan (rev path) []"

definition Base :: "string \<Rightarrow> string" where
  "Base path =
     (if path = [] then ''.''
      else (let path = rev (dropWhile (\<lambda>c. c = CHR ''/'') (rev path));
                path = rev (takeWhile (\<lambda>c. c \<noteq> CHR ''/'') (rev path))
            in if path = [] then ''/'' else path))"

definition getFileNameWithoutExt :: "string \<Rightarrow> string" where
  "getFileNameWithoutExt path = Base (take (length path - length (Ext path)) path)"

subsection \<open>The template and its skeletons\<close>

text \<open>
  Modelled from the spec: the generator, declared in another file of the package, with
  the fields that \<^verbatim>\<open>generator.go\<close> reads: the names of the YAML file of the
  specification and of the template file, the output directory, the test functions and
  the loaded packages.
\<close>

record Generator =
  Generator_Yaml :: string
  Generator_Template :: string
  Generator_OutputDir :: string
  Generator_TestFuncs :: "TestFunc list"
  Generator_Program :: "Package list"

text \<open>
  A parsed template file: its declarations, its imports and its comment map
  (\<^verbatim>\<open>ast.NewCommentMap\<close>), the list of the nodes that carry comments, each with the
  texts of its comment groups, in the order in which the loop over the map
  visits them.
\<close>

record File =
  File_Decls :: "node list"
  File_Imports :: "ImportSpec list"
  File_Comments :: "(node \<times> string list) list"

text \<open>
  The loop over the comment map in \<^verbatim>\<open>generateTestFuncs\<close>: the three skeleton nodes
  \<^verbatim>\<open>testFuncNode\<close>, \<^verbatim>\<open>testNode\<close> and \<^verbatim>\<open>subtestNode\<close>, each nil until a comment
  with its marker is met.
\<close>

type_synonym skeletons = "node \<times> node \<times> node"

fun scanGroups :: "node \<Rightarrow> string list \<Rightarrow> skeletons \<Rightarrow> skeletons" where
  "scanGroups node [] sk = sk"
| "scanGroups node (text # cgroups) (testFuncNode, testNode, subtestNode) =
     scanGroups node cgroups
       (if Contains text ''Atgen TestFunc block'' then (node, testNode, subtestNode)
        else if Contains text ''Atgen Test block'' then (testFuncNode, node, subtestNode)
        else if Contains text ''Atgen Subtest block'' then (testFuncNode, testNode, node)
        else (testFuncNode, testNode, subtestNode))"

fun scanComments :: "(node \<times> string list) list \<Rightarrow> skeletons \<Rightarrow> skeletons" where
  "scanComments [] sk = sk"
| "scanComments ((node, cgroups) # cmap) sk = scanComments cmap (scanGroups node cgroups sk)"

definition findSkeletons :: "(node \<times> string list) list \<Rightarrow> skeletons" where
  "findSkeletons cmap = scanComments cmap (NilNode, NilNode, NilNode)"

subsection \<open>\<^verbatim>\<open>rewriteFileAst\<close>\<close>

text \<open>
  The import of the package of every router function that is not declared in the
  output package.
\<close>

fun rewriteFileAst :: "File \<Rightarrow> TestFunc list \<Rightarrow> string \<Rightarrow> File" where
  "rewriteFileAst f [] outputPath = f"
| "rewriteFileAst f (tfunc # tfuncs) outputPath =
     (if RouterFunc_PackagePath (TestFunc_RouterFunc tfunc) = outputPath
      then rewriteFileAst f tfuncs outputPath
      else rewriteFileAst
             (f\<lparr>File_Imports :=
                  AddImport (File_Imports f) (RouterFunc_PackagePath (TestFunc_RouterFunc tfunc))\<rparr>)
             tfuncs outputPath)"

subsection \<open>The world of \<^verbatim>\<open>Generate\<close>\<close>

text \<open>
  A failure of the generator is an error value that a function returns (\<open>Err\<close>) or
  a panic (\<open>Panic\<close>).

  What \<^verbatim>\<open>Generate\<close> asks of the operating system and of the Go library is a
  parameter of the model:
  \<^item> \<open>TempFile\<close>: \<^verbatim>\<open>ioutil.TempFile(dir, pattern)\<close>, an error or the name of the new
    temporary file;
  \<^item> \<open>Create\<close>: the error of \<^verbatim>\<open>os.Create(name)\<close>, if any;
  \<^item> \<open>Join\<close>: \<^verbatim>\<open>filepath.Join\<close>;
  \<^item> \<open>RangeOrder\<close>: the order in which the loop over the map of the versions
    visits its keys, which Go leaves open (keys of smaller number first);
  \<^item> \<open>ParseFile\<close>: \<^verbatim>\<open>parser.ParseFile\<close> at a file name, an error or the parsed file;
  \<^item> \<open>Abs\<close>: \<^verbatim>\<open>filepath.Abs\<close>, an error or the absolute path;
  \<^item> \<open>PackageName\<close>: the function \<^verbatim>\<open>PackageName\<close> of another file of the package at
    the file system of the machine, the variable \<^verbatim>\<open>GOPATH\<close> and an absolute path: an
    error or the import path of the directory;
  \<^item> \<open>Assemble\<close>: the part of \<^verbatim>\<open>generateTestFuncs\<close> that follows the first call of
    \<^verbatim>\<open>rewriteTestFuncNode\<close>, from the rest of the loop over the test functions to
    \<^verbatim>\<open>format.Node\<close>: a failure, or the source text that it writes. It is given the
    file with its new imports, the skeletons as the loop over the comment map found
    them, and the import path of the output directory.
\<close>

datatype failure = Err string | Panic string

record world =
  TempFile :: "string \<Rightarrow> string \<Rightarrow> string + string"
  Create :: "string \<Rightarrow> string option"
  Join :: "string \<Rightarrow> string \<Rightarrow> string"
  RangeOrder :: "string \<Rightarrow> nat"
  ParseFile :: "string \<Rightarrow> string + File"
  Abs :: "string \<Rightarrow> string + string"
  PackageName :: "string \<Rightarrow> string + string"
  Assemble ::
    "File \<Rightarrow> skeletons \<Rightarrow> string \<Rightarrow> Generator \<Rightarrow> string \<Rightarrow> TestFunc list \<Rightarrow> failure + string"

subsection \<open>\<^verbatim>\<open>generateTestFuncs\<close>\<close>

text \<open>
  The function \<^verbatim>\<open>pre\<close> of the first walk, which takes the skeletons of the test and
  of the subtests out of the skeleton of the function: it deletes the node that is
  \<^verbatim>\<open>testNode\<close>, and the node that is \<^verbatim>\<open>subtestNode\<close> unless \<^verbatim>\<open>subtestNode\<close> is nil.
  The comparison with \<^verbatim>\<open>testNode\<close> has no such guard, so that a nil node is deleted
  when \<^verbatim>\<open>testNode\<close> is nil. Nodes are compared as values here; the source compares
  pointers, and it calls \<^verbatim>\<open>Delete\<close> twice at a node that is both skeletons.
\<close>

fun prunePre :: "node \<Rightarrow> node \<Rightarrow> unit \<Rightarrow> node \<Rightarrow> unit \<times> edit" where
  "prunePre testNode subtestNode u n =
     (u, if n = testNode then Delete
         else if n = subtestNode \<and> subtestNode \<noteq> NilNode then Delete
         else Keep)"

text \<open>
  \<^verbatim>\<open>util.DuplicateNode\<close> copies a tree. Trees are values, so the copy is the tree; the
  copy of a nil node is nil.
\<close>

definition DuplicateNode :: "node \<Rightarrow> node" where
  "DuplicateNode n = n"

text \<open>
  \<^verbatim>\<open>generateTestFuncs\<close> parses the template, finds the skeletons, walks the skeleton of
  the function with \<open>prunePre\<close> (\<^verbatim>\<open>Apply\<close> at a nil root calls \<^verbatim>\<open>pre\<close> once, at the nil
  node), asks for the import path of the output directory and adds the imports of the
  router functions. Its loop over the test functions starts with the call of
  \<^verbatim>\<open>rewriteTestFuncNode\<close> at a copy of the skeleton of the function, for the first test
  function; everything after this call is \<open>Assemble\<close>. The errors of \<^verbatim>\<open>ParseFile\<close>,
  \<^verbatim>\<open>Abs\<close> and \<^verbatim>\<open>PackageName\<close> are returned, and nothing recovers from a panic.
\<close>

definition generateTestFuncs ::
  "world \<Rightarrow> Generator \<Rightarrow> string \<Rightarrow> TestFunc list \<Rightarrow> failure + string" where
  "generateTestFuncs w g version testFuncs =
     (case ParseFile w (Generator_Template g) of
        Inl e \<Rightarrow> Inl (Err e)
      | Inr f \<Rightarrow>
          (case findSkeletons (File_Comments f) of
             (testFuncNode, testNode, subtestNode) \<Rightarrow>
               (case applyNode (prunePre testNode subtestNode) False () testFuncNode of
                  Inl p \<Rightarrow> Inl (Panic p)
                | Inr (u, pl) \<Rightarrow>
                    (case Abs w (Generator_OutputDir g) of
                       Inl e \<Rightarrow> Inl (Err e)
                     | Inr absPath \<Rightarrow>
                         (case PackageName w absPath of
                            Inl e \<Rightarrow> Inl (Err e)
                          | Inr outputPath \<Rightarrow>
                              (let f = rewriteFileAst f testFuncs outputPath;
                                   rest = Assemble w f (testFuncNode, testNode, subtestNode)
                                            outputPath g version testFuncs
                               in case testFuncs of
                                    [] \<Rightarrow> rest
                                  | testFunc # others \<Rightarrow>
                                      (case rewriteTestFuncNode (DuplicateNode (self pl)) testFunc
                                              outputPath (Generator_Program g) of
                                         Inl p \<Rightarrow> Inl (Panic p)
                                       | Inr tfnode \<Rightarrow> rest)))))))"

subsection \<open>\<^verbatim>\<open>Generate\<close>\<close>

text \<open>
  The effect of \<^verbatim>\<open>Generate\<close> on the file system is the sequence of its file
  operations: the creation of a temporary file, a write to a file, \<^verbatim>\<open>os.Create\<close>
  (which creates the file or truncates it), \<^verbatim>\<open>io.Copy\<close> from one file to another,
  \<^verbatim>\<open>Close\<close> and \<^verbatim>\<open>os.Remove\<close>.
\<close>

datatype fsop =
    CreateTemp string
  | WriteFile string string
  | CreateFile string
  | CopyFile string string
  | CloseFile string
  | RemoveFile string

text \<open>
  The loop over the versions. \<open>deferred\<close> are the operations of the deferred calls
  registered so far, the last registered first; they run when \<^verbatim>\<open>Generate\<close> returns
  or panics. The result is the sequence of the operations and the failure, if any.
\<close>

fun generateLoop ::
  "world \<Rightarrow> Generator \<Rightarrow> string \<Rightarrow> plan \<Rightarrow> fsop list \<Rightarrow> fsop list \<times> failure option" where
  "generateLoop w g base [] deferred = (deferred, None)"
| "generateLoop w g base ((v, t) # tfuncs) deferred =
     (let filename = v @ ''_'' @ base @ ''.go'' in
      case TempFile w (Generator_OutputDir g) filename of
        Inl e \<Rightarrow> (deferred, Some (Err e))
      | Inr tf \<Rightarrow>
          (let deferred = [CloseFile tf, RemoveFile tf] @ deferred in
           case generateTestFuncs w g v t of
             Inl e \<Rightarrow> (CreateTemp tf # deferred, Some e)
           | Inr src \<Rightarrow>
               (let out = Join w (Generator_OutputDir g) filename in
                case Create w out of
                  Some e \<Rightarrow> ([CreateTemp tf, WriteFile tf src] @ deferred, Some (Err e))
                | None \<Rightarrow>
                    (let deferred = CloseFile out # deferred;
                         (ops, err) = generateLoop w g base tfuncs deferred
                     in ([CreateTemp tf, WriteFile tf src, CreateFile out, CopyFile tf out] @ ops,
                         err)))))"

definition testBase :: "string \<Rightarrow> string" where
  "testBase yaml =
     (let base = getFileNameWithoutExt yaml
      in if HasSuffix base ''_test'' then base else base @ ''_test'')"

definition Generate :: "world \<Rightarrow> Generator \<Rightarrow> fsop list \<times> failure option" where
  "Generate w g =
     (let base = testBase (Generator_Yaml g);
          tfuncs = filterTestFuncs (Generator_TestFuncs g)
      in generateLoop w g base (sort_key (\<lambda>(v, t). RangeOrder w v) tfuncs) [])"

subsection \<open>The files after a sequence of operations\<close>




text \<open>The final files created, the temporary files created and the files removed.\<close>

fun created :: "fsop list \<Rightarrow> string list" where
  "created [] = []"
| "created (CreateFile p # ops) = p # created ops"
| "created (op # ops) = created ops"

fun temps :: "fsop list \<Rightarrow> string list" where
  "temps [] = []"
| "temps (CreateTemp p # ops) = p # temps ops"
| "temps (op # ops) = temps ops"

fun removed :: "fsop list \<Rightarrow> string list" where
  "removed [] = []"
| "removed (RemoveFile p # ops) = p # removed ops"
| "removed (op # ops) = removed ops"




section \<open>Example values\<close>

text \<open>The values on which the closed theorems below are evaluated.\<close>

definition exampleReq :: Req where
  "exampleReq = \<lparr>Req_Type = JSON, Req_Body = [], Req_Params = GMap [], Req_Headers = GMap []\<rparr>"

definition exampleRes :: Res where
  "exampleRes = \<lparr>Res_Status = 200, Res_Headers = GMap [], Res_Params = GMap [],
     Res_ParamsArray = GList []\<rparr>"

definition exampleTest :: "string slice \<Rightarrow> string \<Rightarrow> Test" where
  "exampleTest apiVersions path =
     \<lparr>Test_APIVersions = apiVersions, Test_Path = path, Test_Method = ''get'',
      Test_Register = [], Test_Req = exampleReq, Test_Res = exampleRes, Test_Vars = GMap []\<rparr>"

definition rawTest :: Test where
  "rawTest =
     (exampleTest None ''/x'')\<lparr>Test_Req := exampleReq\<lparr>Req_Type := RAW, Req_Body := ''hello''\<rparr>\<rparr>"

definition formTest :: Test where
  "formTest = (exampleTest None ''/x'')\<lparr>Test_Req := exampleReq\<lparr>Req_Type := FORM\<rparr>\<rparr>"

definition exampleFunc :: "string slice \<Rightarrow> Tester list \<Rightarrow> TestFunc" where
  "exampleFunc apiVersions tests =
     \<lparr>TestFunc_Name = ''TestExample'', TestFunc_Vars = GMap [],
      TestFunc_RouterFuncName = ''Router'',
      TestFunc_RouterFunc =
        \<lparr>RouterFunc_PackagePath = ''example.com/app'', RouterFunc_Name = ''Router''\<rparr>,
      TestFunc_APIVersions = apiVersions, TestFunc_Tests = tests\<rparr>"

text \<open>
  A library whose parser keeps the source text as the kind of a node without fields.
  Its functions \<open>Quote\<close> and \<open>ToUpper\<close> are those of Go on strings of printable ASCII
  characters, and its \<open>GoSyntax\<close> is the Go syntax of an empty sequence and of an empty
  mapping, the structured values of the examples.
\<close>

definition exampleLib :: golib where
  \<open>exampleLib =
     \<lparr>ParseExpr = (\<lambda>s. Node (OtherKind s) []),
      Quote = quoteASCII,
      GoSyntax = (\<lambda>v. case v of GList xs \<Rightarrow> ''[]interface {}{}''
                         | _ \<Rightarrow> ''map[string]interface {}{}''),
      ToUpper = upperASCII,
      Itoa = decimalInt\<rparr>\<close>

text \<open>
  A test skeleton: a block that assigns the parameters, builds the request body and
  sends the request.
\<close>

definition exampleTestNode :: node where
  \<open>exampleTestNode =
     Node BlockStmt [Many
       [Node AssignStmt
          [Many [Ident ''atgenReqParams''],
           Many [Node CompositeLit [One (Ident ''atgenParams''), Many []]]],
        Node AssignStmt
          [Many [Ident ''reqBody'', Ident ''err''],
           Many [Node CallExpr [One (Ident ''AtgenRequestBody''), Many []]]],
        Node (OtherKind ''ExprStmt'')
          [One (Node CallExpr
             [One (Ident ''request''),
              Many [BasicLit ''"AtgenMethod"'', BasicLit ''"AtgenPath"'',
                    BasicLit ''"$atgenRegister[a.b[0].c]"'', Ident ''reqBody'']])]]]\<close>

text \<open>A function skeleton whose body calls the router function.\<close>

definition exampleFuncNode :: node where
  "exampleFuncNode =
     Node FuncDecl
       [One NilNode, One NilNode, One (Ident ''TestTemplate''),
        One (Node (OtherKind ''FuncType'') []),
        One (Node BlockStmt [Many
          [Node AssignStmt
             [Many [Ident ''r''],
              Many [Node CallExpr [One (Ident ''AtgenRouterFunc''), Many []]]],
           Node BlockStmt [Many []]]])]"

text \<open>
  The function skeleton of a template: it calls the router function, and the test
  skeleton is a statement of its body.
\<close>

definition exampleTemplateNode :: node where
  "exampleTemplateNode =
     Node FuncDecl
       [One NilNode, One NilNode, One (Ident ''TestTemplate''),
        One (Node (OtherKind ''FuncType'') []),
        One (Node BlockStmt [Many
          [Node AssignStmt
             [Many [Ident ''r''],
              Many [Node CallExpr [One (Ident ''AtgenRouterFunc''), Many []]]],
           exampleTestNode]])]"

text \<open>
  A template file whose comments mark the skeleton of the function and the skeleton
  of the test.
\<close>

definition exampleFile :: File where
  "exampleFile =
     \<lparr>File_Decls = [exampleTemplateNode], File_Imports = [(None, ''testing'')],
      File_Comments =
        [(exampleTemplateNode, [''Atgen TestFunc block'']),
         (exampleTestNode, [''Atgen Test block''])]\<rparr>"

text \<open>
  The same file without the marker of the function skeleton, and the same file in
  which no comment carries a marker.
\<close>

definition unmarkedFuncFile :: File where
  "unmarkedFuncFile =
     exampleFile\<lparr>File_Comments :=
       [(exampleTemplateNode, [''TestTemplate is a template'']),
        (exampleTestNode, [''Atgen Test block''])]\<rparr>"

definition unmarkedFile :: File where
  "unmarkedFile =
     exampleFile\<lparr>File_Comments :=
       [(exampleTemplateNode, [''TestTemplate is a template'']),
        (exampleTestNode, [''a request''])]\<rparr>"

text \<open>
  A world in which no file operation fails, the template is \<open>exampleFile\<close>, the
  working directory is the directory of the package \<^verbatim>\<open>example.com/app\<close>, the versions
  are visited by length, and the generated source of a version is one line.
\<close>

definition exampleWorld :: world where
  "exampleWorld =
     \<lparr>TempFile = (\<lambda>dir pattern. Inr (dir @ ''/'' @ pattern @ ''.tmp'')),
      Create = (\<lambda>name. None),
      Join = (\<lambda>dir name. dir @ ''/'' @ name),
      RangeOrder = (\<lambda>v. length v),
      ParseFile = (\<lambda>name. Inr exampleFile),
      Abs = (\<lambda>path. Inr (''/go/src/example.com/app/'' @ path)),
      PackageName = (\<lambda>path. Inr (drop (length ''/go/src/'') path)),
      Assemble = (\<lambda>f sk outputPath g version testFuncs. Inr (''package '' @ version))\<rparr>"

text \<open>
  A generator that writes into the directory \<^verbatim>\<open>out\<close> and has loaded the package of
  the router function of \<open>exampleFunc\<close>.
\<close>

definition exampleGenerator :: "TestFunc list \<Rightarrow> Generator" where
  "exampleGenerator testFuncs =
     \<lparr>Generator_Yaml = ''spec/api.yaml'', Generator_Template = ''template_test.go'',
      Generator_OutputDir = ''out'', Generator_TestFuncs = testFuncs,
      Generator_Program = [\<lparr>Package_PkgPath = ''example.com/app'', Package_Name = ''app''\<rparr>]\<rparr>"

text \<open>The worlds of the templates without markers.\<close>

definition unmarkedFuncWorld :: world where
  "unmarkedFuncWorld = exampleWorld\<lparr>ParseFile := (\<lambda>name. Inr unmarkedFuncFile)\<rparr>"

definition unmarkedWorld :: world where
  "unmarkedWorld = exampleWorld\<lparr>ParseFile := (\<lambda>name. Inr unmarkedFile)\<rparr>"


section \<open>The working set of versions\<close>

text \<open>
  The union of lists of versions, deduplicated in first-seen order: every version once,
  at the place of its first occurrence.
\<close>

definition firstSeen :: "string list \<Rightarrow> string list" where
  "firstSeen xs = rev (remdups (rev xs))"

text \<open>The versions that \<^verbatim>\<open>getVersions\<close> reads from one element of \<^verbatim>\<open>Tests\<close>.\<close>

fun testerVersions :: "Tester \<Rightarrow> string list" where
  "testerVersions (TestItem v) = elems (Test_APIVersions v)"
| "testerVersions (SubtestsItem v) = []"

text \<open>
  The working set as the specification words it: the versions of the function and of
  every nested test, those of the tests of a subtest group included.
\<close>

fun nestedVersions :: "Tester \<Rightarrow> string list" where
  "nestedVersions (TestItem v) = elems (Test_APIVersions v)"
| "nestedVersions (SubtestsItem v) =
     concat (map (\<lambda>s. concat (map (\<lambda>t. elems (Test_APIVersions t)) (Subtest_Tests s))) v)"

definition ExpandVersions :: "TestFunc \<Rightarrow> string list" where
  "ExpandVersions fn =
     firstSeen (elems (TestFunc_APIVersions fn) @ concat (map nestedVersions (TestFunc_Tests fn)))"

lemma appendTestVersions_eq:
  "appendTestVersions versions tests = versions @ concat (map testerVersions tests)"
  by (induction versions tests rule: appendTestVersions.induct) simp_all

lemma remdups_snoc: "remdups (xs @ [x]) = filter (\<lambda>y. y \<noteq> x) (remdups xs) @ [x]"
  by (induction xs) auto

lemma firstSeen_Nil: "firstSeen [] = []"
  by (simp add: firstSeen_def)

lemma firstSeen_Cons: "firstSeen (x # xs) = x # filter (\<lambda>y. y \<noteq> x) (firstSeen xs)"
  by (simp add: firstSeen_def remdups_snoc rev_filter)

lemma filter_firstSeen: "filter P (firstSeen xs) = firstSeen (filter P xs)"
  by (simp add: firstSeen_def rev_filter remdups_filter)

lemma dedupe_eq:
  "dedupe m deduped versions = deduped @ firstSeen (filter (\<lambda>v. \<not> m v) versions)"
proof (induction m deduped versions rule: dedupe.induct)
  case (1 m deduped)
  then show ?case by (simp add: firstSeen_Nil)
next
  case (2 m deduped v versions)
  show ?case
  proof (cases "m v")
    case True
    with 2 show ?thesis by simp
  next
    case False
    have filt: "filter (\<lambda>x. \<not> (m(v := True)) x) versions
        = filter (\<lambda>y. y \<noteq> v) (filter (\<lambda>x. \<not> m x) versions)"
      by (induction versions) auto
    have "dedupe m deduped (v # versions) = dedupe (m(v := True)) (deduped @ [v]) versions"
      using False by simp
    also have "\<dots> = (deduped @ [v]) @ firstSeen (filter (\<lambda>x. \<not> (m(v := True)) x) versions)"
      using 2(1) [OF False] .
    also have "\<dots> = deduped @ firstSeen (v # filter (\<lambda>x. \<not> m x) versions)"
      by (simp only: filt firstSeen_Cons filter_firstSeen append_assoc append_Cons append_Nil)
    also have "\<dots> = deduped @ firstSeen (filter (\<lambda>x. \<not> m x) (v # versions))"
      using False by simp
    finally show ?thesis .
  qed
qed

text \<open>
  What \<^verbatim>\<open>getVersions\<close> computes: the first-seen union of the versions of the function
  and of the tests that are direct elements of \<^verbatim>\<open>Tests\<close>.
\<close>

lemma getVersions_eq:
  "getVersions fn =
     firstSeen (elems (TestFunc_APIVersions fn) @ concat (map testerVersions (TestFunc_Tests fn)))"
  by (simp add: getVersions_def dedupe_eq appendTestVersions_eq)

lemma distinct_getVersions: "distinct (getVersions fn)"
  by (simp add: getVersions_eq firstSeen_def)

lemma set_getVersions:
  "set (getVersions fn) =
     set (elems (TestFunc_APIVersions fn)) \<union> (\<Union>t \<in> set (TestFunc_Tests fn). set (testerVersions t))"
  by (auto simp: getVersions_eq firstSeen_def)

text \<open>
  Claim C1. The working set of a test function is the first-seen union of its own
  versions and of the versions of every nested test, the tests inside subtest groups
  included. The code leaves the subtest groups out: for a function of version v1 whose
  only test, of version v2, is inside a subtest group, \<^verbatim>\<open>getVersions\<close> returns v1 alone,
  where the union of the claim is v1, v2.
\<close>

theorem getVersions_skips_subtests:
  "getVersions (exampleFunc (Some [''v1''])
       [SubtestsItem [\<lparr>Subtest_Name = ''group'', Subtest_APIVersions = Some [''v2''],
          Subtest_Tests = [exampleTest (Some [''v2'']) ''/x'']\<rparr>]]) = [''v1'']
   \<and> ExpandVersions (exampleFunc (Some [''v1''])
       [SubtestsItem [\<lparr>Subtest_Name = ''group'', Subtest_APIVersions = Some [''v2''],
          Subtest_Tests = [exampleTest (Some [''v2'']) ''/x'']\<rparr>]]) = [''v1'', ''v2'']"
  by (simp add: getVersions_def ExpandVersions_def firstSeen_def exampleFunc_def exampleTest_def
      elems_def)

section \<open>The plan of every version\<close>

lemma lookup_appendFunc:
  "lookupFuncs (appendFunc tfuncs k tfunc) version =
     lookupFuncs tfuncs version @ (if k = version then [tfunc] else [])"
  by (induction tfuncs k tfunc rule: appendFunc.induct) auto

lemma lookup_filterVersions:
  "distinct versions \<Longrightarrow>
   lookupFuncs (filterVersions tfuncs testFunc versions) version =
     lookupFuncs tfuncs version @ (if version \<in> set versions then [filterTests testFunc version] else [])"
  by (induction tfuncs testFunc versions rule: filterVersions.induct)
     (auto simp: lookup_appendFunc)

lemma lookup_filterLoop:
  "lookupFuncs (filterLoop tfuncs testFuncs) version =
     lookupFuncs tfuncs version
       @ map (\<lambda>f. filterTests f version) (filter (\<lambda>f. version \<in> set (getVersions f)) testFuncs)"
  by (induction tfuncs testFuncs rule: filterLoop.induct)
     (auto simp: lookup_filterVersions distinct_getVersions)

text \<open>
  Claim C7, as the code has it. The test functions planned for a version are the
  filtered copies of exactly the functions that have the version in their working set,
  in the order of the specification. Planning is a total function and has no error
  result; a function is left out of a version only when the version is not in its
  working set, and a filtered copy that retains no test is planned like any other.
\<close>

theorem filterTestFuncs_plans_working_set:
  "lookupFuncs (filterTestFuncs testFuncs) version =
     map (\<lambda>f. filterTests f version) (filter (\<lambda>f. version \<in> set (getVersions f)) testFuncs)"
  by (simp add: filterTestFuncs_def lookup_filterLoop)

text \<open>
  Claim C7, as stated, fails: a function of versions v1 and v2 whose only test is of
  version v2 retains no test for v1, and its (empty) copy is planned for v1 all the
  same.
\<close>

theorem filterTestFuncs_keeps_empty_function:
  "TestFunc_Tests (filterTests
       (exampleFunc (Some [''v1'', ''v2'']) [TestItem (exampleTest (Some [''v2'']) ''/x'')]) ''v1'') = []
   \<and> lookupFuncs (filterTestFuncs
       [exampleFunc (Some [''v1'', ''v2'']) [TestItem (exampleTest (Some [''v2'']) ''/x'')]]) ''v1''
     = [exampleFunc None []]"
  by (simp add: filterTestFuncs_def getVersions_def filterTests_def filterTest_def
      exampleFunc_def exampleTest_def elems_def)

section \<open>The version placeholder of a path\<close>

lemma Replace1_absent: "\<not> Contains s old \<Longrightarrow> Replace1 s old new = s"
  by (induction s) auto

lemma take_reach:
  assumes "old \<noteq> []"
  shows "take (length old) (pre @ old @ post) = take (length old) (pre @ butlast old) \<or> pre = []"
proof (cases pre)
  case Nil
  then show ?thesis by simp
next
  case (Cons c p)
  have "take (length old - length pre) (old @ post) = take (length old - length pre) (butlast old)"
  proof -
    have le: "length old - length pre \<le> length (butlast old)"
      using Cons assms by simp
    have "take (length old - length pre) (old @ post) = take (length old - length pre) old"
      by simp
    also have "\<dots> = take (length old - length pre) (butlast old @ [last old])"
      using assms by simp
    also have "\<dots> = take (length old - length pre) (butlast old)"
      using le by (simp del: append_butlast_last_id)
    finally show ?thesis .
  qed
  then show ?thesis by simp
qed

text \<open>
  \<open>Replace1\<close> replaces the first occurrence: when \<open>old\<close> stands after \<open>pre\<close> and no
  occurrence of \<open>old\<close> starts inside \<open>pre\<close>.
\<close>

lemma Replace1_first:
  "old \<noteq> [] \<Longrightarrow> \<not> Contains (pre @ butlast old) old \<Longrightarrow>
   Replace1 (pre @ old @ post) old new = pre @ new @ post"
proof (induction pre)
  case Nil
  then show ?case by (cases old) auto
next
  case (Cons c pre)
  from Cons.prems(2) have ne: "take (length old) ((c # pre) @ butlast old) \<noteq> old"
    and rest: "\<not> Contains (pre @ butlast old) old" by auto
  from take_reach [OF Cons.prems(1), of "c # pre" post] ne
  have "take (length old) ((c # pre) @ old @ post) \<noteq> old" by auto
  then show ?case using Cons.IH [OF Cons.prems(1) rest] by simp
qed

text \<open>
  Claim C8, as the code has it. Every retained test is the given test with the first
  occurrence of the placeholder \<^verbatim>\<open>{apiVersion}\<close> in its path replaced by the version
  (a path without the placeholder is unchanged), whether the test is retained through
  its own versions or through the versions of the function.
\<close>

theorem filterTest_replaces_first_placeholder:
  assumes "filterTest test versions version = Some t"
  shows "t = test\<lparr>Test_Path := Replace1 (Test_Path test) ''{apiVersion}'' version\<rparr>
    \<and> (\<forall>pre post. Test_Path test = pre @ ''{apiVersion}'' @ post
          \<and> \<not> Contains (pre @ ''{apiVersion'') ''{apiVersion}''
          \<longrightarrow> Test_Path t = pre @ version @ post)
    \<and> (\<not> Contains (Test_Path test) ''{apiVersion}'' \<longrightarrow> Test_Path t = Test_Path test)"
proof -
  from assms have t: "t = test\<lparr>Test_Path := Replace1 (Test_Path test) ''{apiVersion}'' version\<rparr>"
    by (auto simp: filterTest_def Let_def split: if_splits)
  have first: "Test_Path t = pre @ version @ post"
    if "Test_Path test = pre @ ''{apiVersion}'' @ post"
      and "\<not> Contains (pre @ ''{apiVersion'') ''{apiVersion}''" for pre post
  proof -
    have "\<not> Contains (pre @ butlast ''{apiVersion}'') ''{apiVersion}''"
      using that(2) by simp
    then have "Replace1 (pre @ ''{apiVersion}'' @ post) ''{apiVersion}'' version = pre @ version @ post"
      by (intro Replace1_first) simp_all
    with t that(1) show ?thesis by simp
  qed
  have absent: "Test_Path t = Test_Path test" if "\<not> Contains (Test_Path test) ''{apiVersion}''"
    using t that by (simp add: Replace1_absent)
  from t first absent show ?thesis by blast
qed

theorem filterTest_replaces_first_placeholder_witness:
  "filterTest (exampleTest None ''/api/{apiVersion}/x'') (Some [''v1'', ''v2'']) ''v1''
     = Some (exampleTest None ''/api/v1/x'')
   \<and> Test_Path (exampleTest None ''/api/v1/x'') = ''/api/'' @ ''v1'' @ ''/x''"
proof -
  have r: "filterTest (exampleTest None ''/api/{apiVersion}/x'') (Some [''v1'', ''v2'']) ''v1''
     = Some (exampleTest None ''/api/v1/x'')"
    by (simp add: filterTest_def exampleTest_def elems_def)
  have p: "Test_Path (exampleTest None ''/api/{apiVersion}/x'') = ''/api/'' @ ''{apiVersion}'' @ ''/x''"
    by (simp add: exampleTest_def)
  have n: "\<not> Contains (''/api/'' @ ''{apiVersion'') ''{apiVersion}''"
    by simp
  from filterTest_replaces_first_placeholder [OF r] p n
  have "Test_Path (exampleTest None ''/api/v1/x'') = ''/api/'' @ ''v1'' @ ''/x''"
    by blast
  with r show ?thesis by simp
qed

text \<open>
  Claim C8, as stated, fails: in a path with two placeholders the second one is left
  in the path of the retained test.
\<close>

theorem filterTest_leaves_second_placeholder:
  "filterTest (exampleTest None ''/{apiVersion}/a/{apiVersion}'') (Some [''v1'']) ''v1''
     = Some (exampleTest None ''/v1/a/{apiVersion}'')
   \<and> Contains (Test_Path (exampleTest None ''/v1/a/{apiVersion}'')) ''{apiVersion}''"
  by (simp add: filterTest_def exampleTest_def elems_def)

section \<open>Register paths in string literals\<close>

text \<open>
  A register path as the specification has it: a name, then accessors, each a dot with
  a name (a key of a map) or an index in brackets (a position in a sequence).
  \<open>registerLiteral\<close> is the string literal of a path in the template, and \<open>lookupChain\<close>
  the chain of lookups that the path stands for: the accessors from left to right, a
  map assertion with a lookup by key for a name, a sequence assertion with an index for
  an index, and a string assertion at the end.
\<close>

datatype accessor = Key string | Index nat

fun showAccessor :: "accessor \<Rightarrow> string" where
  "showAccessor (Key k) = ''.'' @ k"
| "showAccessor (Index n) = ''['' @ decimal n @ '']''"

definition registerLiteral :: "string \<Rightarrow> accessor list \<Rightarrow> string" where
  \<open>registerLiteral root accs =
     ''"$atgenRegister['' @ root @ concat (map showAccessor accs) @ '']"''\<close>

definition lookupRoot :: "string \<Rightarrow> string" where
  \<open>lookupRoot root = ''["'' @ root @ ''"]''\<close>

fun lookupAccessor :: "accessor \<Rightarrow> string" where
  \<open>lookupAccessor (Key k) = ''.(map[string]interface{})["'' @ k @ ''"]''\<close>
| \<open>lookupAccessor (Index n) = ''.([]interface{})['' @ decimal n @ '']''\<close>

definition lookupChain :: "string \<Rightarrow> accessor list \<Rightarrow> string" where
  \<open>lookupChain root accs =
     ''atgenRegister'' @ lookupRoot root @ concat (map lookupAccessor accs) @ ''.(string)''\<close>

text \<open>
  Names are made of letters, digits and underscores. The paths that the rewriter
  translates into their chain: every index has one digit and follows a name, so that
  no index follows another index.
\<close>

definition identChar :: "char \<Rightarrow> bool" where
  "identChar c \<longleftrightarrow>
     c \<in> set ''abcdefghijklmnopqrstuvwxyzABCDEFGHIJKLMNOPQRSTUVWXYZ0123456789_''"

definition isIdent :: "string \<Rightarrow> bool" where
  "isIdent s \<longleftrightarrow> s \<noteq> [] \<and> list_all identChar s"

fun supported :: "string \<Rightarrow> accessor list \<Rightarrow> bool" where
  "supported root [] \<longleftrightarrow> isIdent root"
| "supported root (Key k # accs) \<longleftrightarrow> isIdent root \<and> supported k accs"
| "supported root [Index n] \<longleftrightarrow> isIdent root \<and> n < 10"
| "supported root (Index n # Key k # accs) \<longleftrightarrow> isIdent root \<and> n < 10 \<and> supported k accs"
| "supported root (Index n # Index m # accs) \<longleftrightarrow> False"

lemma identChar_plain:
  "identChar c \<Longrightarrow> c \<noteq> CHR ''.'' \<and> c \<noteq> CHR ''['' \<and> c \<noteq> CHR 0x0A"
  by (auto simp: identChar_def)

lemma isIdent_plain:
  assumes "isIdent s"
  shows "s \<noteq> []" "CHR ''.'' \<notin> set s" "CHR ''['' \<notin> set s" "CHR 0x0A \<notin> set s"
  using assms identChar_plain by (auto simp: isIdent_def list_all_iff)

lemma digit_isDigit: "n < 10 \<Longrightarrow> isDigit (digit n)"
proof -
  assume "n < 10"
  then have "n \<in> {0, 1, 2, 3, 4, 5, 6, 7, 8, 9}" by auto
  then show ?thesis by (auto simp: digit_def isDigit_def)
qed

lemma isDigit_plain:
  "isDigit d \<Longrightarrow> d \<noteq> CHR ''.'' \<and> d \<noteq> CHR 0x0A \<and> d \<noteq> CHR ''['' \<and> d \<noteq> CHR '']''"
  by (auto simp: isDigit_def)

lemma Contains_char: "Contains s [c] \<longleftrightarrow> c \<in> set s"
  by (induction s) auto

lemma Split_none: "sep \<notin> set s \<Longrightarrow> Split s sep = [s]"
  by (induction s) auto

lemma Split_first: "sep \<notin> set s \<Longrightarrow> Split (s @ sep # r) sep = s # Split r sep"
  by (induction s) auto

lemma TrimPrefix_append: "TrimPrefix (p @ s) p = s"
  by (simp add: TrimPrefix_def HasPrefix_def)

lemma TrimSuffix_append: "TrimSuffix (s @ x) x = s"
  by (simp add: TrimSuffix_def HasSuffix_def)

text \<open>The expression matches a name with one index of one digit as a whole.\<close>

lemma backtrack_index:
  assumes "root \<noteq> []" "isDigit d"
  shows "backtrack (root @ [CHR ''['', d, CHR '']'']) (length (root @ [CHR ''['', d, CHR '']'']))
           = Some (root, d, [])"
proof -
  obtain m where m: "length root = Suc m" using assms(1) by (cases root) auto
  let ?s = "root @ [CHR ''['', d, CHR '']'']"
  have "backtrack ?s (length ?s) = backtrack ?s (Suc (Suc (Suc (Suc m))))"
    using m by simp
  also have "\<dots> = backtrack ?s (Suc (Suc (Suc m)))"
    using m by simp
  also have "\<dots> = backtrack ?s (Suc (Suc m))"
    using m by simp
  also have "\<dots> = backtrack ?s (Suc m)"
    using m by simp
  also have "\<dots> = Some (root, d, [])"
    using m assms(2) by simp
  finally show ?thesis .
qed

lemma ReplaceAllString_index:
  assumes "root \<noteq> []" "CHR 0x0A \<notin> set root" "isDigit d"
  shows "ReplaceAllString (root @ [CHR ''['', d, CHR '']'']) = Expand root d"
proof -
  let ?s = "root @ [CHR ''['', d, CHR '']'']"
  obtain c s' where cs: "?s = c # s'" using assms(1) by (cases root) auto
  have "\<forall>x \<in> set ?s. x \<noteq> CHR 0x0A"
    using assms(2) isDigit_plain [OF assms(3)] by auto
  then have "takeWhile (\<lambda>c. c \<noteq> CHR 0x0A) ?s = ?s"
    by (simp only: takeWhile_eq_all_conv)
  then have "matchHere ?s = backtrack ?s (length ?s)"
    by (simp only: matchHere_def)
  also have "\<dots> = Some (root, d, [])"
    by (rule backtrack_index [OF assms(1,3)])
  finally have "matchHere ?s = Some (root, d, [])" .
  then show ?thesis
    unfolding cs by simp
qed

lemma registerLoop_supported:
  "supported root accs \<Longrightarrow>
   registerLoop val i (Split (root @ concat (map showAccessor accs)) CHR ''.'')
     = val @ (if i > 0 then ''.(map[string]interface{})'' else [])
         @ lookupRoot root @ concat (map lookupAccessor accs)"
proof (induction root accs arbitrary: val i rule: supported.induct)
  case (1 root)
  then show ?case
    using isIdent_plain [of root] by (simp add: Split_none lookupRoot_def Contains_char)
next
  case (2 root k accs)
  then have r: "isIdent root" and s: "supported k accs" by simp_all
  have "Split (root @ concat (map showAccessor (Key k # accs))) CHR ''.''
      = root # Split (k @ concat (map showAccessor accs)) CHR ''.''"
    using isIdent_plain [OF r] by (simp add: Split_first)
  then show ?case
    using isIdent_plain [OF r] 2(1) [OF s] by (simp add: lookupRoot_def Contains_char)
next
  case (3 root n)
  then have r: "isIdent root" and n: "n < 10" by simp_all
  have d: "decimal n = [digit n]" using n by simp
  have "Split (root @ [CHR ''['', digit n, CHR '']'']) CHR ''.''
      = [root @ [CHR ''['', digit n, CHR '']'']]"
    using isIdent_plain [OF r] isDigit_plain [OF digit_isDigit [OF n]]
    by (intro Split_none) auto
  then show ?case
    using isIdent_plain [OF r] ReplaceAllString_index [OF _ _ digit_isDigit [OF n], of root]
    by (simp add: d Expand_def lookupRoot_def Contains_char del: decimal.simps)
next
  case (4 root n k accs)
  then have r: "isIdent root" and n: "n < 10" and s: "supported k accs" by simp_all
  have d: "decimal n = [digit n]" using n by simp
  have "CHR ''.'' \<notin> set (root @ [CHR ''['', digit n, CHR '']''])"
    using isIdent_plain [OF r] isDigit_plain [OF digit_isDigit [OF n]] by auto
  from Split_first [OF this]
  have "Split (root @ concat (map showAccessor (Index n # Key k # accs))) CHR ''.''
      = (root @ [CHR ''['', digit n, CHR '']''])
        # Split (k @ concat (map showAccessor accs)) CHR ''.''"
    by (simp add: d del: decimal.simps)
  then show ?case
    using isIdent_plain [OF r] ReplaceAllString_index [OF _ _ digit_isDigit [OF n], of root]
      4(1) [OF s]
    by (simp add: d Expand_def lookupRoot_def Contains_char del: decimal.simps)
next
  case (5 root n m accs)
  then show ?case by simp
qed

lemma replaceRegister_supported:
  assumes "supported root accs"
  shows "replaceRegister (registerLiteral root accs) = lookupChain root accs"
proof -
  let ?path = "root @ concat (map showAccessor accs)"
  have "TrimPrefix (registerLiteral root accs) [CHR 0x22, CHR ''$'', CHR ''a'', CHR ''t'',
      CHR ''g'', CHR ''e'', CHR ''n'', CHR ''R'', CHR ''e'', CHR ''g'', CHR ''i'', CHR ''s'',
      CHR ''t'', CHR ''e'', CHR ''r'', CHR ''[''] = ?path @ [CHR '']'', CHR 0x22]"
    unfolding registerLiteral_def by (simp only: TrimPrefix_append append_assoc)
  moreover have "TrimSuffix (?path @ [CHR '']'', CHR 0x22]) [CHR '']'', CHR 0x22] = ?path"
    by (rule TrimSuffix_append)
  ultimately have "replaceRegister (registerLiteral root accs)
      = registerLoop ''atgenRegister'' 0 (Split ?path CHR ''.'') @ ''.(string)''"
    by (simp only: replaceRegister_def Let_def)
  then show ?thesis
    using registerLoop_supported [OF assms, of "''atgenRegister''" 0]
    by (simp add: lookupChain_def)
qed

lemma interpolate_register:
  "interpolate (registerLiteral root accs) = Inr (replaceRegister (registerLiteral root accs))"
  by (simp add: interpolate_def registerLiteral_def HasPrefix_def)

text \<open>
  Where the rewriter is right: for every string literal of a register path in which
  every index has one digit and follows a name, the second walk writes into the
  literal the chain of lookups of the path: from left to right a lookup by key in a
  map for every name and an index into a sequence for every index, at any depth and
  in any mix, with a string assertion at the end.
\<close>

theorem interpolate_register_path:
  assumes "supported root accs"
  shows "applyNode interpolatePre inSlice u (BasicLit (registerLiteral root accs))
           = Inr (u, Stays (BasicLit (lookupChain root accs)))"
  using replaceRegister_supported [OF assms]
  by (simp add: enter_def interpolate_register)

theorem interpolate_register_path_witness:
  \<open>supported ''a'' [Key ''b'', Index 0, Key ''c'']
   \<and> registerLiteral ''a'' [Key ''b'', Index 0, Key ''c''] = ''"$atgenRegister[a.b[0].c]"''
   \<and> applyNode interpolatePre True () (BasicLit ''"$atgenRegister[a.b[0].c]"'')
       = Inr ((), Stays (BasicLit
           ''atgenRegister["a"].(map[string]interface{})["b"].([]interface{})[0].(map[string]interface{})["c"].(string)''))\<close>
proof -
  have s: "supported ''a'' [Key ''b'', Index 0, Key ''c'']"
    by (simp add: isIdent_def identChar_def)
  have l: \<open>registerLiteral ''a'' [Key ''b'', Index 0, Key ''c''] = ''"$atgenRegister[a.b[0].c]"''\<close>
    by (simp add: registerLiteral_def digit_def)
  have c: \<open>lookupChain ''a'' [Key ''b'', Index 0, Key ''c'']
     = ''atgenRegister["a"].(map[string]interface{})["b"].([]interface{})[0].(map[string]interface{})["c"].(string)''\<close>
    by (simp add: lookupChain_def lookupRoot_def digit_def)
  from interpolate_register_path [OF s, of True "()"] s l c show ?thesis by simp
qed

text \<open>
  Claim C3. For every string literal of a register path, with indexes of any number of
  digits and in any mix with names, the rewriter writes the chain of lookups of the
  path into the literal. The code does not: the expression of \<open>replaceRegister\<close> has
  \<^verbatim>\<open>\d\<close> for the index and a greedy first group. The segment \<^verbatim>\<open>a[10]\<close> takes the
  branch of the indexes, is not matched and is copied as it is, so that the result
  \<^verbatim>\<open>atgenRegistera[10].(string)\<close> is no lookup at all; and in \<^verbatim>\<open>a[0][1]\<close> the first
  index becomes a part of the key \<^verbatim>\<open>a[0]\<close>. The chains of the two paths are
  \<open>lookupChain\<close>.
\<close>

theorem interpolate_register_path_unsupported:
  \<open>registerLiteral ''a'' [Index 10] = ''"$atgenRegister[a[10]]"''
   \<and> lookupChain ''a'' [Index 10] = ''atgenRegister["a"].([]interface{})[10].(string)''
   \<and> applyNode interpolatePre True () (BasicLit ''"$atgenRegister[a[10]]"'')
       = Inr ((), Stays (BasicLit ''atgenRegistera[10].(string)''))
   \<and> registerLiteral ''a'' [Index 0, Index 1] = ''"$atgenRegister[a[0][1]]"''
   \<and> lookupChain ''a'' [Index 0, Index 1]
       = ''atgenRegister["a"].([]interface{})[0].([]interface{})[1].(string)''
   \<and> applyNode interpolatePre True () (BasicLit ''"$atgenRegister[a[0][1]]"'')
       = Inr ((), Stays (BasicLit ''atgenRegister["a[0]"].([]interface{})[1].(string)''))\<close>
  by code_simp

section \<open>The request body\<close>

text \<open>
  Claim C2. The body expression of a test is chosen by the content type of its
  request: for JSON the parsed call of \<^verbatim>\<open>json.Marshal\<close> on the parameters, for FORM the
  parsed function literal that adds every parameter, with its key, to \<^verbatim>\<open>url.Values\<close>
  and returns their encoding, for RAW the parsed function literal that executes the
  template \<^verbatim>\<open>{{.body}}\<close> on the mapping of \<^verbatim>\<open>body\<close> to the quoted body of the request.
  In the first walk of \<open>rewriteTestNode\<close> the expression takes the place of the call of
  \<^verbatim>\<open>AtgenRequestBody\<close>, whose arguments are still walked. A statement of a statement
  list that assigns to \<^verbatim>\<open>atgenReqParams\<close> is left out of the list for RAW, after its
  own children have been walked, and it stays in the list for every other content type.
\<close>

theorem rewriteTestNode_request_body:
  \<open>(Req_Type req = JSON \<longrightarrow>
      generateRequestBody lib req = ParseExpr lib ''json.Marshal(atgenReqParams)'')
   \<and> (Req_Type req = FORM \<longrightarrow>
      generateRequestBody lib req = ParseExpr lib
          (''func () ([]byte, error){''
           @ line 3 ''body := url.Values{}''
           @ line 3 ''for k, v := range atgenReqParams {''
           @ line 4 ''body.Add(k, fmt.Sprintf("%v", v))''
           @ line 3 ''}''
           @ line 3 ''return []byte(body.Encode()),nil''
           @ line 3 ''}()''))
   \<and> (Req_Type req = RAW \<longrightarrow>
      generateRequestBody lib req = ParseExpr lib
          (''func() (body []byte, err error) {''
           @ line 3 ''tmpl, err := template.New("body").Parse("{{.body}}")''
           @ line 3 ''if err != nil {''
           @ line 4 ''return''
           @ line 3 ''}''
           @ line 3 ''if tmpl != nil {''
           @ line 4 ''buf := bytes.NewBuffer([]byte{})''
           @ line 4 (''err = tmpl.Execute(buf, map[string]string{"body": '' @ Quote lib (Req_Body req) @ ''})'')
           @ line 4 ''if err != nil {''
           @ line 5 ''return''
           @ line 4 ''}''
           @ line 4 ''body = buf.Bytes()''
           @ line 3 ''}''
           @ line 3 ''return''
           @ line 2 ''}()''))
   \<and> (generateRequestBody lib (Test_Req test) \<noteq> NilNode \<longrightarrow>
      applyNode (testPre lib test) inSlice ident
          (Node CallExpr (One (Ident ''AtgenRequestBody'') # rest))
        = (case applyFields (testPre lib test) ''AtgenRequestBody'' rest of
             Inl p \<Rightarrow> Inl p
           | Inr (st, rest') \<Rightarrow>
               Inr (st, Replaced (generateRequestBody lib (Test_Req test))
                          (Node CallExpr (One (Ident ''AtgenRequestBody'') # rest')))))
   \<and> (Req_Type (Test_Req test) = RAW \<longrightarrow>
      applyList (testPre lib test) ident
          (Node AssignStmt (Many (Ident ''atgenReqParams'' # lhs) # rhs) # stmts)
        = (case applyFields (testPre lib test) ident (Many (Ident ''atgenReqParams'' # lhs) # rhs) of
             Inl p \<Rightarrow> Inl p
           | Inr (st, fs) \<Rightarrow> applyList (testPre lib test) st stmts))
   \<and> (Req_Type (Test_Req test) \<noteq> RAW \<longrightarrow>
      applyList (testPre lib test) ident
          (Node AssignStmt (Many (Ident ''atgenReqParams'' # lhs) # rhs) # stmts)
        = (case applyFields (testPre lib test) ident (Many (Ident ''atgenReqParams'' # lhs) # rhs) of
             Inl p \<Rightarrow> Inl p
           | Inr (st, fs) \<Rightarrow>
               (case applyList (testPre lib test) st stmts of
                  Inl p \<Rightarrow> Inl p
                | Inr (st', stmts') \<Rightarrow> Inr (st', Node AssignStmt fs # stmts'))))\<close>
proof (intro conjI impI)
  assume "Req_Type req = JSON"
  then show "generateRequestBody lib req = ParseExpr lib ''json.Marshal(atgenReqParams)''"
    by (simp add: generateRequestBody_def jsonBody_def)
next
  assume "Req_Type req = FORM"
  then show \<open>generateRequestBody lib req = ParseExpr lib
          (''func () ([]byte, error){''
           @ line 3 ''body := url.Values{}''
           @ line 3 ''for k, v := range atgenReqParams {''
           @ line 4 ''body.Add(k, fmt.Sprintf("%v", v))''
           @ line 3 ''}''
           @ line 3 ''return []byte(body.Encode()),nil''
           @ line 3 ''}()'')\<close>
    by (simp add: generateRequestBody_def formBody_def)
next
  assume "Req_Type req = RAW"
  then show \<open>generateRequestBody lib req = ParseExpr lib
          (''func() (body []byte, err error) {''
           @ line 3 ''tmpl, err := template.New("body").Parse("{{.body}}")''
           @ line 3 ''if err != nil {''
           @ line 4 ''return''
           @ line 3 ''}''
           @ line 3 ''if tmpl != nil {''
           @ line 4 ''buf := bytes.NewBuffer([]byte{})''
           @ line 4 (''err = tmpl.Execute(buf, map[string]string{"body": '' @ Quote lib (Req_Body req) @ ''})'')
           @ line 4 ''if err != nil {''
           @ line 5 ''return''
           @ line 4 ''}''
           @ line 4 ''body = buf.Bytes()''
           @ line 3 ''}''
           @ line 3 ''return''
           @ line 2 ''}()'')\<close>
    by (simp add: generateRequestBody_def rawBody_def)
next
  assume "generateRequestBody lib (Test_Req test) \<noteq> NilNode"
  then show "applyNode (testPre lib test) inSlice ident
          (Node CallExpr (One (Ident ''AtgenRequestBody'') # rest))
        = (case applyFields (testPre lib test) ''AtgenRequestBody'' rest of
             Inl p \<Rightarrow> Inl p
           | Inr (st, rest') \<Rightarrow>
               Inr (st, Replaced (generateRequestBody lib (Test_Req test))
                          (Node CallExpr (One (Ident ''AtgenRequestBody'') # rest'))))"
    by (simp add: enter_def Let_def split: sum.splits prod.splits)
next
  assume "Req_Type (Test_Req test) = RAW"
  then show "applyList (testPre lib test) ident
          (Node AssignStmt (Many (Ident ''atgenReqParams'' # lhs) # rhs) # stmts)
        = (case applyFields (testPre lib test) ident (Many (Ident ''atgenReqParams'' # lhs) # rhs) of
             Inl p \<Rightarrow> Inl p
           | Inr (st, fs) \<Rightarrow> applyList (testPre lib test) st stmts)"
    by (simp add: enter_def split: sum.splits prod.splits)
next
  assume "Req_Type (Test_Req test) \<noteq> RAW"
  then show "applyList (testPre lib test) ident
          (Node AssignStmt (Many (Ident ''atgenReqParams'' # lhs) # rhs) # stmts)
        = (case applyFields (testPre lib test) ident (Many (Ident ''atgenReqParams'' # lhs) # rhs) of
             Inl p \<Rightarrow> Inl p
           | Inr (st, fs) \<Rightarrow>
               (case applyList (testPre lib test) st stmts of
                  Inl p \<Rightarrow> Inl p
                | Inr (st', stmts') \<Rightarrow> Inr (st', Node AssignStmt fs # stmts')))"
    by (simp add: enter_def split: sum.splits prod.splits)
qed

text \<open>
  The three content types on the example skeleton, with the layout of the texts
  written out. For RAW the assignment of the parameters is gone and the body is the
  function literal of the quoted body \<^verbatim>\<open>hello\<close>; for FORM and JSON the assignment
  stays, with the literal of the parameters of the request at its right-hand side.
\<close>

theorem rewriteTestNode_request_body_witness:
  \<open>Req_Type (Test_Req rawTest) = RAW
   \<and> generateRequestBody exampleLib (Test_Req rawTest)
     = Node (OtherKind
         (''func() (body []byte, err error) {''
          @ [CHR 0x0A, CHR 0x09, CHR 0x09, CHR 0x09] @ ''tmpl, err := template.New("body").Parse("{{.body}}")''
          @ [CHR 0x0A, CHR 0x09, CHR 0x09, CHR 0x09] @ ''if err != nil {''
          @ [CHR 0x0A, CHR 0x09, CHR 0x09, CHR 0x09, CHR 0x09] @ ''return''
          @ [CHR 0x0A, CHR 0x09, CHR 0x09, CHR 0x09] @ ''}''
          @ [CHR 0x0A, CHR 0x09, CHR 0x09, CHR 0x09] @ ''if tmpl != nil {''
          @ [CHR 0x0A, CHR 0x09, CHR 0x09, CHR 0x09, CHR 0x09] @ ''buf := bytes.NewBuffer([]byte{})''
          @ [CHR 0x0A, CHR 0x09, CHR 0x09, CHR 0x09, CHR 0x09] @ ''err = tmpl.Execute(buf, map[string]string{"body": "hello"})''
          @ [CHR 0x0A, CHR 0x09, CHR 0x09, CHR 0x09, CHR 0x09] @ ''if err != nil {''
          @ [CHR 0x0A, CHR 0x09, CHR 0x09, CHR 0x09, CHR 0x09, CHR 0x09] @ ''return''
          @ [CHR 0x0A, CHR 0x09, CHR 0x09, CHR 0x09, CHR 0x09] @ ''}''
          @ [CHR 0x0A, CHR 0x09, CHR 0x09, CHR 0x09, CHR 0x09] @ ''body = buf.Bytes()''
          @ [CHR 0x0A, CHR 0x09, CHR 0x09, CHR 0x09] @ ''}''
          @ [CHR 0x0A, CHR 0x09, CHR 0x09, CHR 0x09] @ ''return''
          @ [CHR 0x0A, CHR 0x09, CHR 0x09] @ ''}()'')) []
   \<and> rewriteTestNode exampleLib exampleTestNode rawTest
     = Inr (Node BlockStmt [Many
       [Node AssignStmt
          [Many [Ident ''reqBody'', Ident ''err''],
           Many [Node (OtherKind 
             (''func() (body []byte, err error) {''
              @ [CHR 0x0A, CHR 0x09, CHR 0x09, CHR 0x09] @ ''tmpl, err := template.New("body").Parse("{{.body}}")''
              @ [CHR 0x0A, CHR 0x09, CHR 0x09, CHR 0x09] @ ''if err != nil {''
              @ [CHR 0x0A, CHR 0x09, CHR 0x09, CHR 0x09, CHR 0x09] @ ''return''
              @ [CHR 0x0A, CHR 0x09, CHR 0x09, CHR 0x09] @ ''}''
              @ [CHR 0x0A, CHR 0x09, CHR 0x09, CHR 0x09] @ ''if tmpl != nil {''
              @ [CHR 0x0A, CHR 0x09, CHR 0x09, CHR 0x09, CHR 0x09] @ ''buf := bytes.NewBuffer([]byte{})''
              @ [CHR 0x0A, CHR 0x09, CHR 0x09, CHR 0x09, CHR 0x09] @ ''err = tmpl.Execute(buf, map[string]string{"body": "hello"})''
              @ [CHR 0x0A, CHR 0x09, CHR 0x09, CHR 0x09, CHR 0x09] @ ''if err != nil {''
              @ [CHR 0x0A, CHR 0x09, CHR 0x09, CHR 0x09, CHR 0x09, CHR 0x09] @ ''return''
              @ [CHR 0x0A, CHR 0x09, CHR 0x09, CHR 0x09, CHR 0x09] @ ''}''
              @ [CHR 0x0A, CHR 0x09, CHR 0x09, CHR 0x09, CHR 0x09] @ ''body = buf.Bytes()''
              @ [CHR 0x0A, CHR 0x09, CHR 0x09, CHR 0x09] @ ''}''
              @ [CHR 0x0A, CHR 0x09, CHR 0x09, CHR 0x09] @ ''return''
              @ [CHR 0x0A, CHR 0x09, CHR 0x09] @ ''}()'')) []]],
        Node (OtherKind ''ExprStmt'')
          [One (Node CallExpr
             [One (Ident ''request''),
              Many [BasicLit ''"GET"'', BasicLit ''"/x"'',
                    BasicLit ''atgenRegister["a"].(map[string]interface{})["b"].([]interface{})[0].(map[string]interface{})["c"].(string)'',
                    Ident ''reqBody'']])]]])
   \<and> rewriteTestNode exampleLib exampleTestNode formTest
     = Inr (Node BlockStmt [Many
       [Node AssignStmt
          [Many [Ident ''atgenReqParams''],
           Many [Node (OtherKind ''map[string]interface {}{}'') []]],
        Node AssignStmt
          [Many [Ident ''reqBody'', Ident ''err''],
           Many [Node (OtherKind 
             (''func () ([]byte, error){''
              @ [CHR 0x0A, CHR 0x09, CHR 0x09, CHR 0x09] @ ''body := url.Values{}''
              @ [CHR 0x0A, CHR 0x09, CHR 0x09, CHR 0x09] @ ''for k, v := range atgenReqParams {''
              @ [CHR 0x0A, CHR 0x09, CHR 0x09, CHR 0x09, CHR 0x09] @ ''body.Add(k, fmt.Sprintf("%v", v))''
              @ [CHR 0x0A, CHR 0x09, CHR 0x09, CHR 0x09] @ ''}''
              @ [CHR 0x0A, CHR 0x09, CHR 0x09, CHR 0x09] @ ''return []byte(body.Encode()),nil''
              @ [CHR 0x0A, CHR 0x09, CHR 0x09, CHR 0x09] @ ''}()'')) []]],
        Node (OtherKind ''ExprStmt'')
          [One (Node CallExpr
             [One (Ident ''request''),
              Many [BasicLit ''"GET"'', BasicLit ''"/x"'',
                    BasicLit ''atgenRegister["a"].(map[string]interface{})["b"].([]interface{})[0].(map[string]interface{})["c"].(string)'',
                    Ident ''reqBody'']])]]])
   \<and> rewriteTestNode exampleLib exampleTestNode (exampleTest None ''/x'')
     = Inr (Node BlockStmt [Many
       [Node AssignStmt
          [Many [Ident ''atgenReqParams''],
           Many [Node (OtherKind ''map[string]interface {}{}'') []]],
        Node AssignStmt
          [Many [Ident ''reqBody'', Ident ''err''],
           Many [Node (OtherKind ''json.Marshal(atgenReqParams)'') []]],
        Node (OtherKind ''ExprStmt'')
          [One (Node CallExpr
             [One (Ident ''request''),
              Many [BasicLit ''"GET"'', BasicLit ''"/x"'',
                    BasicLit ''atgenRegister["a"].(map[string]interface{})["b"].([]interface{})[0].(map[string]interface{})["c"].(string)'',
                    Ident ''reqBody'']])]]])\<close>
proof -
  have t: "Req_Type (Test_Req rawTest) = RAW"
    by (simp add: rawTest_def exampleTest_def exampleReq_def)
  from rewriteTestNode_request_body [of "Test_Req rawTest" exampleLib rawTest] t
  have g: \<open>generateRequestBody exampleLib (Test_Req rawTest)
     = Node (OtherKind
         (''func() (body []byte, err error) {''
          @ [CHR 0x0A, CHR 0x09, CHR 0x09, CHR 0x09] @ ''tmpl, err := template.New("body").Parse("{{.body}}")''
          @ [CHR 0x0A, CHR 0x09, CHR 0x09, CHR 0x09] @ ''if err != nil {''
          @ [CHR 0x0A, CHR 0x09, CHR 0x09, CHR 0x09, CHR 0x09] @ ''return''
          @ [CHR 0x0A, CHR 0x09, CHR 0x09, CHR 0x09] @ ''}''
          @ [CHR 0x0A, CHR 0x09, CHR 0x09, CHR 0x09] @ ''if tmpl != nil {''
          @ [CHR 0x0A, CHR 0x09, CHR 0x09, CHR 0x09, CHR 0x09] @ ''buf := bytes.NewBuffer([]byte{})''
          @ [CHR 0x0A, CHR 0x09, CHR 0x09, CHR 0x09, CHR 0x09] @ ''err = tmpl.Execute(buf, map[string]string{"body": "hello"})''
          @ [CHR 0x0A, CHR 0x09, CHR 0x09, CHR 0x09, CHR 0x09] @ ''if err != nil {''
          @ [CHR 0x0A, CHR 0x09, CHR 0x09, CHR 0x09, CHR 0x09, CHR 0x09] @ ''return''
          @ [CHR 0x0A, CHR 0x09, CHR 0x09, CHR 0x09, CHR 0x09] @ ''}''
          @ [CHR 0x0A, CHR 0x09, CHR 0x09, CHR 0x09, CHR 0x09] @ ''body = buf.Bytes()''
          @ [CHR 0x0A, CHR 0x09, CHR 0x09, CHR 0x09] @ ''}''
          @ [CHR 0x0A, CHR 0x09, CHR 0x09, CHR 0x09] @ ''return''
          @ [CHR 0x0A, CHR 0x09, CHR 0x09] @ ''}()'')) []\<close>
    by (simp add: exampleLib_def rawTest_def exampleTest_def exampleReq_def line_def
        quoteASCII_def eval_nat_numeral)
  have r: \<open>rewriteTestNode exampleLib exampleTestNode rawTest
     = Inr (Node BlockStmt [Many
       [Node AssignStmt
          [Many [Ident ''reqBody'', Ident ''err''],
           Many [Node (OtherKind 
             (''func() (body []byte, err error) {''
              @ [CHR 0x0A, CHR 0x09, CHR 0x09, CHR 0x09] @ ''tmpl, err := template.New("body").Parse("{{.body}}")''
              @ [CHR 0x0A, CHR 0x09, CHR 0x09, CHR 0x09] @ ''if err != nil {''
              @ [CHR 0x0A, CHR 0x09, CHR 0x09, CHR 0x09, CHR 0x09] @ ''return''
              @ [CHR 0x0A, CHR 0x09, CHR 0x09, CHR 0x09] @ ''}''
              @ [CHR 0x0A, CHR 0x09, CHR 0x09, CHR 0x09] @ ''if tmpl != nil {''
              @ [CHR 0x0A, CHR 0x09, CHR 0x09, CHR 0x09, CHR 0x09] @ ''buf := bytes.NewBuffer([]byte{})''
              @ [CHR 0x0A, CHR 0x09, CHR 0x09, CHR 0x09, CHR 0x09] @ ''err = tmpl.Execute(buf, map[string]string{"body": "hello"})''
              @ [CHR 0x0A, CHR 0x09, CHR 0x09, CHR 0x09, CHR 0x09] @ ''if err != nil {''
              @ [CHR 0x0A, CHR 0x09, CHR 0x09, CHR 0x09, CHR 0x09, CHR 0x09] @ ''return''
              @ [CHR 0x0A, CHR 0x09, CHR 0x09, CHR 0x09, CHR 0x09] @ ''}''
              @ [CHR 0x0A, CHR 0x09, CHR 0x09, CHR 0x09, CHR 0x09] @ ''body = buf.Bytes()''
              @ [CHR 0x0A, CHR 0x09, CHR 0x09, CHR 0x09] @ ''}''
              @ [CHR 0x0A, CHR 0x09, CHR 0x09, CHR 0x09] @ ''return''
              @ [CHR 0x0A, CHR 0x09, CHR 0x09] @ ''}()'')) []]],
        Node (OtherKind ''ExprStmt'')
          [One (Node CallExpr
             [One (Ident ''request''),
              Many [BasicLit ''"GET"'', BasicLit ''"/x"'',
                    BasicLit ''atgenRegister["a"].(map[string]interface{})["b"].([]interface{})[0].(map[string]interface{})["c"].(string)'',
                    Ident ''reqBody'']])]]])\<close>
    by code_simp
  have f: \<open>rewriteTestNode exampleLib exampleTestNode formTest
     = Inr (Node BlockStmt [Many
       [Node AssignStmt
          [Many [Ident ''atgenReqParams''],
           Many [Node (OtherKind ''map[string]interface {}{}'') []]],
        Node AssignStmt
          [Many [Ident ''reqBody'', Ident ''err''],
           Many [Node (OtherKind 
             (''func () ([]byte, error){''
              @ [CHR 0x0A, CHR 0x09, CHR 0x09, CHR 0x09] @ ''body := url.Values{}''
              @ [CHR 0x0A, CHR 0x09, CHR 0x09, CHR 0x09] @ ''for k, v := range atgenReqParams {''
              @ [CHR 0x0A, CHR 0x09, CHR 0x09, CHR 0x09, CHR 0x09] @ ''body.Add(k, fmt.Sprintf("%v", v))''
              @ [CHR 0x0A, CHR 0x09, CHR 0x09, CHR 0x09] @ ''}''
              @ [CHR 0x0A, CHR 0x09, CHR 0x09, CHR 0x09] @ ''return []byte(body.Encode()),nil''
              @ [CHR 0x0A, CHR 0x09, CHR 0x09, CHR 0x09] @ ''}()'')) []]],
        Node (OtherKind ''ExprStmt'')
          [One (Node CallExpr
             [One (Ident ''request''),
              Many [BasicLit ''"GET"'', BasicLit ''"/x"'',
                    BasicLit ''atgenRegister["a"].(map[string]interface{})["b"].([]interface{})[0].(map[string]interface{})["c"].(string)'',
                    Ident ''reqBody'']])]]])\<close>
    by code_simp
  have j: \<open>rewriteTestNode exampleLib exampleTestNode (exampleTest None ''/x'')
     = Inr (Node BlockStmt [Many
       [Node AssignStmt
          [Many [Ident ''atgenReqParams''],
           Many [Node (OtherKind ''map[string]interface {}{}'') []]],
        Node AssignStmt
          [Many [Ident ''reqBody'', Ident ''err''],
           Many [Node (OtherKind ''json.Marshal(atgenReqParams)'') []]],
        Node (OtherKind ''ExprStmt'')
          [One (Node CallExpr
             [One (Ident ''request''),
              Many [BasicLit ''"GET"'', BasicLit ''"/x"'',
                    BasicLit ''atgenRegister["a"].(map[string]interface{})["b"].([]interface{})[0].(map[string]interface{})["c"].(string)'',
                    Ident ''reqBody'']])]]])\<close>
    by code_simp
  from t g r f j show ?thesis by (intro conjI)
qed

section \<open>The router function\<close>

lemma findPackage_none:
  "\<forall>p \<in> set pkgs. Package_PkgPath p \<noteq> path \<Longrightarrow> findPackage pkg pkgs path = pkg"
  by (induction pkg pkgs path rule: findPackage.induct) auto

text \<open>
  When the package of the router function is not the output package and no loaded
  package has its path, the new function expression is never built: the nil pointer is
  read.
\<close>

lemma routerFun_unmatched:
  assumes "RouterFunc_PackagePath (TestFunc_RouterFunc tfunc) \<noteq> outputPath"
    and "\<forall>p \<in> set pkgs. Package_PkgPath p \<noteq> RouterFunc_PackagePath (TestFunc_RouterFunc tfunc)"
  shows "routerFun tfunc outputPath pkgs = Inl ''invalid memory address or nil pointer dereference''"
  using assms by (simp add: routerFun_def findPackage_none)

text \<open>
  Claim C4. When the package that declares the router function matches no loaded
  package, generation returns an error. The code does not: for a function skeleton that
  calls \<^verbatim>\<open>AtgenRouterFunc\<close>, a router function of the package \<^verbatim>\<open>example.com/app\<close>, the
  output package \<^verbatim>\<open>example.com/out\<close> and the loaded package \<^verbatim>\<open>example.com/other\<close>,
  \<open>rewriteTestFuncNode\<close> panics on the nil pointer and returns nothing.
\<close>

theorem rewriteTestFuncNode_unmatched_package:
  "rewriteTestFuncNode exampleFuncNode (exampleFunc None []) ''example.com/out''
     [\<lparr>Package_PkgPath = ''example.com/other'', Package_Name = ''other''\<rparr>]
   = Inl ''invalid memory address or nil pointer dereference''"
  by (simp add: rewriteTestFuncNode_def exampleFuncNode_def exampleFunc_def routerFun_def
      RouterFuncName_def)

section \<open>The imports of the helper packages\<close>

text \<open>
  Claim C6. A test of content type FORM or RAW adds its helper packages to the imports
  of the output file. The code adds the four packages for FORM only: for RAW the import
  list is returned as it is, although the RAW body expression uses \<^verbatim>\<open>bytes\<close> and
  \<^verbatim>\<open>text/template\<close>.
\<close>

theorem addAdditionalImports_raw_adds_nothing:
  "addAdditionalImports RAW imports = imports
   \<and> addAdditionalImports FORM []
       = [(None, ''fmt''), (None, ''net/url''), (None, ''bytes''), (None, ''text/template'')]"
  by (simp add: addAdditionalImports_def AddImport_def importName_def)

section \<open>The output files\<close>

lemma created_append: "created (xs @ ys) = created xs @ created ys"
  by (induction xs rule: created.induct) auto

lemma temps_append: "temps (xs @ ys) = temps xs @ temps ys"
  by (induction xs rule: temps.induct) auto

lemma removed_append: "removed (xs @ ys) = removed xs @ removed ys"
  by (induction xs rule: removed.induct) auto

subsection \<open>The versions of the plan\<close>

lemma keys_appendFunc:
  "map fst (appendFunc tfuncs k f)
     = (if k \<in> set (map fst tfuncs) then map fst tfuncs else map fst tfuncs @ [k])"
  by (induction tfuncs k f rule: appendFunc.induct) auto

lemma keys_filterVersions:
  "set (map fst (filterVersions tfuncs f vs)) = set (map fst tfuncs) \<union> set vs
   \<and> (distinct (map fst tfuncs) \<longrightarrow> distinct (map fst (filterVersions tfuncs f vs)))"
  by (induction tfuncs f vs rule: filterVersions.induct) (auto simp: keys_appendFunc)

lemma keys_filterLoop:
  "set (map fst (filterLoop tfuncs fs))
     = set (map fst tfuncs) \<union> (\<Union>f \<in> set fs. set (getVersions f))
   \<and> (distinct (map fst tfuncs) \<longrightarrow> distinct (map fst (filterLoop tfuncs fs)))"
proof (induction tfuncs fs rule: filterLoop.induct)
  case (1 tfuncs)
  then show ?case by simp
next
  case (2 tfuncs testFunc testFuncs)
  then show ?case
    using keys_filterVersions [of tfuncs testFunc "getVersions testFunc"] by auto
qed

lemma keys_filterTestFuncs:
  "set (map fst (filterTestFuncs fs)) = (\<Union>f \<in> set fs. set (getVersions f))"
  "distinct (map fst (filterTestFuncs fs))"
  using keys_filterLoop [of "[]" fs] by (simp_all add: filterTestFuncs_def)

text \<open>The versions in the order in which \<open>Generate\<close> visits them.\<close>

definition rangeVersions :: "world \<Rightarrow> Generator \<Rightarrow> string list" where
  "rangeVersions w g =
     map fst (sort_key (\<lambda>(v, t). RangeOrder w v) (filterTestFuncs (Generator_TestFuncs g)))"

lemma rangeVersions_perm:
  "set (rangeVersions w g) = (\<Union>f \<in> set (Generator_TestFuncs g). set (getVersions f))"
  "distinct (rangeVersions w g)"
proof -
  let ?m = "filterTestFuncs (Generator_TestFuncs g)"
  let ?s = "sort_key (\<lambda>(v, t). RangeOrder w v) ?m"
  show "set (rangeVersions w g) = (\<Union>f \<in> set (Generator_TestFuncs g). set (getVersions f))"
    using keys_filterTestFuncs(1) [of "Generator_TestFuncs g"]
    by (simp add: rangeVersions_def)
  have "distinct ?m \<and> inj_on fst (set ?m)"
    using keys_filterTestFuncs(2) [of "Generator_TestFuncs g"] by (simp add: distinct_map)
  then have "distinct ?s \<and> inj_on fst (set ?s)" by simp
  then show "distinct (rangeVersions w g)"
    by (simp add: rangeVersions_def distinct_map)
qed

subsection \<open>A template without the marker of the function skeleton\<close>

lemma filterLoop_no_versions:
  "\<forall>f \<in> set fs. getVersions f = [] \<Longrightarrow> filterLoop tfuncs fs = tfuncs"
  by (induction tfuncs fs rule: filterLoop.induct) auto

text \<open>
  The template is read in the loop over the versions only: when no test function has
  a version, \<open>Generate\<close> returns without an error and without a file operation,
  whatever the template is.
\<close>

lemma Generate_without_versions:
  assumes "\<forall>f \<in> set (Generator_TestFuncs g). getVersions f = []"
  shows "Generate w g = ([], None)"
  using filterLoop_no_versions [OF assms, of "[]"]
  by (simp add: Generate_def filterTestFuncs_def)

text \<open>Every version of the plan has a test function.\<close>

lemma appendFunc_nonempty:
  "\<forall>(v, t) \<in> set tfuncs. t \<noteq> [] \<Longrightarrow> \<forall>(v, t) \<in> set (appendFunc tfuncs k f). t \<noteq> []"
  by (induction tfuncs k f rule: appendFunc.induct) auto

lemma filterVersions_nonempty:
  "\<forall>(v, t) \<in> set tfuncs. t \<noteq> [] \<Longrightarrow> \<forall>(v, t) \<in> set (filterVersions tfuncs f vs). t \<noteq> []"
  by (induction tfuncs f vs rule: filterVersions.induct) (simp_all add: appendFunc_nonempty)

lemma filterLoop_nonempty:
  "\<forall>(v, t) \<in> set tfuncs. t \<noteq> [] \<Longrightarrow> \<forall>(v, t) \<in> set (filterLoop tfuncs fs). t \<noteq> []"
  by (induction tfuncs fs rule: filterLoop.induct) (simp_all add: filterVersions_nonempty)

lemma filterTestFuncs_nonempty: "(v, t) \<in> set (filterTestFuncs fs) \<Longrightarrow> t \<noteq> []"
  using filterLoop_nonempty [of "[]" fs] by (auto simp: filterTestFuncs_def)

text \<open>
  \<^verbatim>\<open>generateTestFuncs\<close> never tests \<^verbatim>\<open>testFuncNode\<close> for nil. When no comment of the
  template carries the marker of the function skeleton, the function returns no
  source text for a version of the plan: the first walk deletes the nil root when
  there is no test skeleton either, and panics; otherwise the call of
  \<^verbatim>\<open>rewriteTestFuncNode\<close> for the first test function asserts that the nil node is a
  function declaration, and panics. The only error values are those of \<^verbatim>\<open>Abs\<close> and
  \<^verbatim>\<open>PackageName\<close>.
\<close>

lemma generateTestFuncs_without_function_skeleton:
  assumes "ParseFile w (Generator_Template g) = Inr f"
    and "findSkeletons (File_Comments f) = (NilNode, testNode, subtestNode)"
    and "testFuncs \<noteq> []"
  shows "generateTestFuncs w g version testFuncs =
     (if testNode = NilNode then Inl (Panic ''Delete node not contained in slice'')
      else case Abs w (Generator_OutputDir g) of
             Inl e \<Rightarrow> Inl (Err e)
           | Inr absPath \<Rightarrow>
               (case PackageName w absPath of
                  Inl e \<Rightarrow> Inl (Err e)
                | Inr outputPath \<Rightarrow>
                    Inl (Panic ''interface conversion: ast.Node is nil, not *ast.FuncDecl'')))"
proof -
  obtain testFunc others where "testFuncs = testFunc # others"
    using assms(3) by (cases testFuncs) auto
  then show ?thesis
    using assms(1,2)
    by (auto simp: generateTestFuncs_def enter_def rewriteTestFuncNode_def DuplicateNode_def
        split: sum.splits)
qed

text \<open>
  Claim C5. When no comment of the template carries the marker of the function
  skeleton, generation returns a configuration error. The code does not: it has no
  check of the marker, and for a specification with the version v1 it panics on the
  nil skeleton. With the template \<open>unmarkedFile\<close>, which has no marker at all,
  \<^verbatim>\<open>Apply\<close> is asked to delete the nil root; with the template \<open>unmarkedFuncFile\<close>,
  which has the marker of the test skeleton, \<^verbatim>\<open>rewriteTestFuncNode\<close> asserts that the
  nil node is a function declaration. In both runs the temporary file is removed and
  no error value is returned.
\<close>

theorem Generate_without_function_marker_panics:
  "ParseFile unmarkedWorld ''template_test.go'' = Inr unmarkedFile
   \<and> findSkeletons (File_Comments unmarkedFile) = (NilNode, NilNode, NilNode)
   \<and> Generate unmarkedWorld
       (exampleGenerator [exampleFunc (Some [''v1'']) [TestItem (exampleTest None ''/x'')]])
     = ([CreateTemp ''out/v1_api_test.go.tmp'', CloseFile ''out/v1_api_test.go.tmp'',
         RemoveFile ''out/v1_api_test.go.tmp''],
        Some (Panic ''Delete node not contained in slice''))
   \<and> ParseFile unmarkedFuncWorld ''template_test.go'' = Inr unmarkedFuncFile
   \<and> findSkeletons (File_Comments unmarkedFuncFile) = (NilNode, exampleTestNode, NilNode)
   \<and> Generate unmarkedFuncWorld
       (exampleGenerator [exampleFunc (Some [''v1'']) [TestItem (exampleTest None ''/x'')]])
     = ([CreateTemp ''out/v1_api_test.go.tmp'', CloseFile ''out/v1_api_test.go.tmp'',
         RemoveFile ''out/v1_api_test.go.tmp''],
        Some (Panic ''interface conversion: ast.Node is nil, not *ast.FuncDecl''))"
  by code_simp

subsection \<open>The names of the output files\<close>

text \<open>
  The name of the output file of a version: the version, an underscore, the base name
  of the YAML file without its extension, to which \<^verbatim>\<open>_test\<close> is added unless it ends
  with it, and the extension \<^verbatim>\<open>.go\<close>.
\<close>

definition outputName :: "Generator \<Rightarrow> string \<Rightarrow> string" where
  "outputName g v = v @ ''_'' @ testBase (Generator_Yaml g) @ ''.go''"

text \<open>
  The name as the specification words it: the version, the base name of the template
  file, the test suffix and the extension.
\<close>

definition specOutputName :: "Generator \<Rightarrow> string \<Rightarrow> string" where
  "specOutputName g v =
     v @ ''_'' @ getFileNameWithoutExt (Generator_Template g) @ ''_test'' @ ''.go''"

lemma generateLoop_created:
  "generateLoop w g base tfuncs deferred = (ops, None) \<Longrightarrow>
   created ops
     = map (\<lambda>(v, t). Join w (Generator_OutputDir g) (v @ ''_'' @ base @ ''.go'')) tfuncs
       @ created deferred"
proof (induction w g base tfuncs deferred arbitrary: ops rule: generateLoop.induct)
  case (1 w g base deferred)
  then show ?case by simp
next
  case (2 w g base v t tfuncs deferred)
  show ?case
    using "2.prems" "2.IH"
    by (auto simp: Let_def split: sum.splits option.splits prod.splits)
qed

text \<open>
  Claim C9, as the code has it. When generation succeeds, the final files created are
  the files of the versions of the specification, one for each version, in the order
  of the loop, and the name of the file of a version is its \<open>outputName\<close>, made from
  the name of the YAML file; different versions have different names.
\<close>

theorem Generate_output_files:
  assumes "Generate w g = (ops, None)"
  shows "created ops
      = map (\<lambda>v. Join w (Generator_OutputDir g) (outputName g v)) (rangeVersions w g)
    \<and> distinct (rangeVersions w g)
    \<and> set (rangeVersions w g) = (\<Union>f \<in> set (Generator_TestFuncs g). set (getVersions f))
    \<and> distinct (map (outputName g) (rangeVersions w g))"
proof -
  have "created ops
      = map (\<lambda>v. Join w (Generator_OutputDir g) (outputName g v)) (rangeVersions w g)"
    using generateLoop_created [of w g "testBase (Generator_Yaml g)" _ "[]" ops] assms
    by (simp add: Generate_def Let_def rangeVersions_def outputName_def case_prod_unfold comp_def)
  moreover have "distinct (map (outputName g) (rangeVersions w g))"
    using rangeVersions_perm(2) [of w g]
    by (simp add: distinct_map inj_on_def outputName_def)
  ultimately show ?thesis
    using rangeVersions_perm [of w g] by simp
qed

text \<open>The specification of two versions, on the example world.\<close>

theorem Generate_output_files_witness:
  "Generate exampleWorld
       (exampleGenerator [exampleFunc (Some [''v10'', ''v1'']) [TestItem (exampleTest None ''/x'')]])
     = ([CreateTemp ''out/v1_api_test.go.tmp'',
         WriteFile ''out/v1_api_test.go.tmp'' ''package v1'',
         CreateFile ''out/v1_api_test.go'',
         CopyFile ''out/v1_api_test.go.tmp'' ''out/v1_api_test.go'',
         CreateTemp ''out/v10_api_test.go.tmp'',
         WriteFile ''out/v10_api_test.go.tmp'' ''package v10'',
         CreateFile ''out/v10_api_test.go'',
         CopyFile ''out/v10_api_test.go.tmp'' ''out/v10_api_test.go'',
         CloseFile ''out/v10_api_test.go'', CloseFile ''out/v10_api_test.go.tmp'',
         RemoveFile ''out/v10_api_test.go.tmp'', CloseFile ''out/v1_api_test.go'',
         CloseFile ''out/v1_api_test.go.tmp'', RemoveFile ''out/v1_api_test.go.tmp''],
        None)
   \<and> rangeVersions exampleWorld
       (exampleGenerator [exampleFunc (Some [''v10'', ''v1'']) [TestItem (exampleTest None ''/x'')]])
     = [''v1'', ''v10'']
   \<and> map (\<lambda>v. Join exampleWorld ''out''
         (outputName
           (exampleGenerator [exampleFunc (Some [''v10'', ''v1'']) [TestItem (exampleTest None ''/x'')]])
           v)) [''v1'', ''v10'']
     = [''out/v1_api_test.go'', ''out/v10_api_test.go'']"
proof -
  let ?g = "exampleGenerator
    [exampleFunc (Some [''v10'', ''v1'']) [TestItem (exampleTest None ''/x'')]]"
  let ?ops = "[CreateTemp ''out/v1_api_test.go.tmp'',
         WriteFile ''out/v1_api_test.go.tmp'' ''package v1'',
         CreateFile ''out/v1_api_test.go'',
         CopyFile ''out/v1_api_test.go.tmp'' ''out/v1_api_test.go'',
         CreateTemp ''out/v10_api_test.go.tmp'',
         WriteFile ''out/v10_api_test.go.tmp'' ''package v10'',
         CreateFile ''out/v10_api_test.go'',
         CopyFile ''out/v10_api_test.go.tmp'' ''out/v10_api_test.go'',
         CloseFile ''out/v10_api_test.go'', CloseFile ''out/v10_api_test.go.tmp'',
         RemoveFile ''out/v10_api_test.go.tmp'', CloseFile ''out/v1_api_test.go'',
         CloseFile ''out/v1_api_test.go.tmp'', RemoveFile ''out/v1_api_test.go.tmp'']"
  have run: "Generate exampleWorld ?g = (?ops, None)"
    by code_simp
  have vs: "rangeVersions exampleWorld ?g = [''v1'', ''v10'']"
    by code_simp
  have dir: "Generator_OutputDir ?g = ''out''"
    by (simp add: exampleGenerator_def)
  from Generate_output_files [OF run]
  have "created ?ops
      = map (\<lambda>v. Join exampleWorld ''out'' (outputName ?g v)) [''v1'', ''v10'']"
    by (simp only: vs dir)
  then have "map (\<lambda>v. Join exampleWorld ''out'' (outputName ?g v)) [''v1'', ''v10'']
      = [''out/v1_api_test.go'', ''out/v10_api_test.go'']"
    by simp
  with run vs show ?thesis by (intro conjI)
qed

text \<open>
  Claim C9, as stated, fails in the name: the file of version v1 is named after the
  YAML file \<^verbatim>\<open>spec/api.yaml\<close>, not after the template \<^verbatim>\<open>template_test.go\<close>.
\<close>

theorem Generate_names_after_yaml:
  "created (fst (Generate exampleWorld
       (exampleGenerator [exampleFunc (Some [''v1'']) [TestItem (exampleTest None ''/x'')]])))
     = [''out/v1_api_test.go'']
   \<and> Join exampleWorld ''out''
       (specOutputName
         (exampleGenerator [exampleFunc (Some [''v1'']) [TestItem (exampleTest None ''/x'')]])
         ''v1'')
     = ''out/v1_template_test_test.go''"
  by code_simp

subsection \<open>Temporary files and final files\<close>








end
